theory Spec2Isabelle
  imports Main "HOL-Library.Word" "HOL-Library.Multiset"
begin

unbundle bit_operations_syntax

section \<open>The Bluetooth event loop (android\_server\_BluetoothEventLoop.cpp)\<close>

text \<open>
  A shallow embedding of the native half of \<open>android.server.BluetoothEventLoop\<close>.
  The C++ file talks to three things that are not part of it: the kernel (a socket pair,
  \<open>malloc\<close>), the D-Bus library and the Java object it calls back. Their answers are
  arguments of the functions below, and what the code does to them is recorded, in order,
  in a list of \<open>effect\<close> values.
\<close>

subsection \<open>Data\<close>

type_synonym byte = "8 word"
type_synonym cint = "32 word"
type_synonym cshort = "16 word"
type_synonym ptr = "32 word"

text \<open>\<open>struct pollfd\<close> of \<open>poll.h\<close>.\<close>

record pollfd =
  fd :: cint
  events :: cshort
  revents :: cshort

text \<open>Constants of \<open>poll.h\<close> and \<open>dbus.h\<close>, and the three tags of the file.\<close>

definition POLLIN :: cint where "POLLIN = 1"
definition POLLOUT :: cint where "POLLOUT = 4"
definition DBUS_WATCH_READABLE :: cint where "DBUS_WATCH_READABLE = 1"
definition DBUS_WATCH_WRITABLE :: cint where "DBUS_WATCH_WRITABLE = 2"

definition EVENT_LOOP_EXIT :: byte where "EVENT_LOOP_EXIT = 1"
definition EVENT_LOOP_ADD :: byte where "EVENT_LOOP_ADD = 2"
definition EVENT_LOOP_REMOVE :: byte where "EVENT_LOOP_REMOVE = 3"

text \<open>
  A D-Bus message as this file reads it: the arguments it decodes, and the four kinds
  of message. A method call carries its serial (a reply names the serial it answers)
  and perhaps an interface; an error carries its name and the text that
  \<open>dbus_set_error_from_message\<close> puts into \<open>err.message\<close>.
\<close>

datatype dbus_arg = ArgInt32 cint | ArgString string | ArgObjectPath string | ArgOther

datatype dbus_message =
  MethodCall nat "string option" string string "dbus_arg list"
| MethodReturn nat "dbus_arg list"
| Error nat string string
| Signal string string string "dbus_arg list"

datatype dbus_message_type =
  DBUS_MESSAGE_TYPE_METHOD_CALL | DBUS_MESSAGE_TYPE_METHOD_RETURN
| DBUS_MESSAGE_TYPE_ERROR | DBUS_MESSAGE_TYPE_SIGNAL

datatype DBusHandlerResult = DBUS_HANDLER_RESULT_HANDLED | DBUS_HANDLER_RESULT_NOT_YET_HANDLED

text \<open>The calls into the Java object (\<open>env->Call...Method(nat->me, method_..., ...)\<close>).\<close>

datatype jcall =
  onPropertyChanged "string list"
| onDevicePropertyChanged string "string list"
| onDeviceFound string "string list"
| onDeviceDisappeared string
| onDeviceCreated string
| onDeviceRemoved string
| onCreatePairedDeviceResultJ string int
| onRequestPinCode string nat
| onAgentAuthorize string string
| onAgentCancel

text \<open>
  A method id is the id of a Java method, known by its name and signature.

  What the code does to the outside, in order: a log line (\<open>LOGV\<close>, \<open>LOGI\<close>,
  \<open>LOGW\<close>, \<open>LOGE\<close>, with the format string), a call into Java on the object
  \<open>me\<close> through a method id that \<open>classInitNative\<close> has looked up, a
  \<open>CallVoidMethod\<close> on an object with a string and an \<open>int\<close> through the
  value of a method-id variable as it is (with \<open>NULL\<close>, here \<open>None\<close>, no Java
  method is called, and nothing is defined about what the program does then: a list of
  effects ends there), a message sent on a connection (\<open>dbus_connection_send\<close>), a blocking
  method call on a connection (destination, path, interface, method), a retained message
  (\<open>dbus_message_ref\<close>), \<open>free\<close> of a heap block, \<open>dbus_error_free\<close>,
  \<open>shutdown\<close> of a descriptor, \<open>DeleteGlobalRef\<close>, \<open>pthread_create\<close>, and
  the mutex. Blocks that are modelled by their contents (the two buffers of the Watch
  Set) are freed by being dropped.
\<close>

datatype jmethodID = MethodID string string

datatype effect =
  LogV string | LogI string | LogW string | LogE string
| CallJava ptr jcall
| CallVoidMethodID ptr "jmethodID option" string int
| DBusSend ptr dbus_message
| DBusCallBlocking ptr string string string string
| DBusMessageRef nat
| Free ptr
| DBusErrorFree
| Shutdown cint
| DeleteGlobalRef ptr
| PthreadCreate nat
| MutexLock | MutexUnlock

text \<open>
  \<open>event_loop_native_data_t\<close>, declared in android\_bluetooth\_common.h: the fields
  are those this file reads and writes, but for the mutex, whose taking and releasing are
  effects. A pointer to a heap block is \<open>None\<close> when it is \<open>NULL\<close> and otherwise
  the block's cells; the block's length is what was allocated, which \<open>pollDataSize\<close>
  only claims to know. The two counters are C \<open>int\<close>s that the code never makes
  negative. Where the source calls a pointer to this structure \<open>nat\<close>, the
  definitions below say \<open>nd\<close>, \<open>nat\<close> being the type of natural numbers.
\<close>

record native_data_t =
  conn :: ptr
  adapter :: "string option"
  thread :: nat
  pollData :: "pollfd list option"
  pollMemberCount :: nat
  pollDataSize :: nat
  watchData :: "ptr list option"
  controlFdR :: cint
  controlFdW :: cint
  vm :: ptr
  envVer :: cint
  me :: ptr

text \<open>
  The worker's view of the world: the structure, the bytes in flight in the socket pair
  from \<open>controlFdW\<close> to \<open>controlFdR\<close> (the Control Channel: \<open>write\<close> appends,
  \<open>read\<close> and \<open>recv\<close> take from the front), and the effects so far.
\<close>

record loop_state = native_data_t +
  chan :: "byte list"
  trace :: "effect list"

subsection \<open>The Control Channel\<close>

text \<open>
  \<open>write(nat->controlFdW, &x, sizeof x)\<close> for a 32-bit \<open>x\<close> (an \<open>int\<close>, an
  \<open>unsigned int\<close> or a pointer, on the 32-bit little-endian targets of this code, which
  stores the structure's address in a Java \<open>int\<close>) and for a \<open>char\<close>.
\<close>

definition le32 :: "32 word \<Rightarrow> byte list" where
  "le32 w = [ucast w, ucast (drop_bit 8 w), ucast (drop_bit 16 w), ucast (drop_bit 24 w)]"

definition write32 :: "32 word \<Rightarrow> loop_state \<Rightarrow> loop_state" where
  "write32 w s = s\<lparr>chan := chan s @ le32 w\<rparr>"

definition write8 :: "byte \<Rightarrow> loop_state \<Rightarrow> loop_state" where
  "write8 b s = s\<lparr>chan := chan s @ [b]\<rparr>"

text \<open>
  \<open>read(nat->controlFdR, &x, sizeof x)\<close> for a 32-bit \<open>x\<close>. With fewer than four
  bytes in the channel the C code blocks or leaves \<open>x\<close> partly unset: the model has no
  value there (\<open>None\<close>).
\<close>

fun rd32 :: "byte list \<Rightarrow> (32 word \<times> byte list) option" where
  "rd32 (a # b # c # d # r) =
     Some (ucast a OR push_bit 8 (ucast b) OR push_bit 16 (ucast c) OR push_bit 24 (ucast d), r)"
| "rd32 _ = None"

definition read32 :: "loop_state \<Rightarrow> (32 word \<times> loop_state) option" where
  "read32 s = (case rd32 (chan s) of None \<Rightarrow> None | Some (w, r) \<Rightarrow> Some (w, s\<lparr>chan := r\<rparr>))"

definition logv :: "string \<Rightarrow> loop_state \<Rightarrow> loop_state" where
  "logv m s = s\<lparr>trace := trace s @ [LogV m]\<rparr>"

definition logw :: "string \<Rightarrow> loop_state \<Rightarrow> loop_state" where
  "logw m s = s\<lparr>trace := trace s @ [LogW m]\<rparr>"

subsection \<open>The watch hooks\<close>

text \<open>
  A \<open>DBusWatch\<close> as the hooks see it: its address and what \<open>dbus_watch_get_enabled\<close>,
  \<open>dbus_watch_get_fd\<close> and \<open>dbus_watch_get_flags\<close> return.
\<close>

record DBusWatch =
  watch_addr :: ptr
  watch_enabled :: bool
  watch_fd :: cint
  watch_flags :: cint

definition dbusAddWatch :: "DBusWatch \<Rightarrow> loop_state \<Rightarrow> bool \<times> loop_state" where
  "dbusAddWatch watch s =
     (if watch_enabled watch then
        (True, write32 (watch_addr watch)
                 (write32 (watch_flags watch)
                    (write32 (watch_fd watch)
                       (write8 EVENT_LOOP_ADD s))))
      else (True, s))"

definition dbusRemoveWatch :: "DBusWatch \<Rightarrow> loop_state \<Rightarrow> loop_state" where
  "dbusRemoveWatch watch s =
     write32 (watch_flags watch) (write32 (watch_fd watch) (write8 EVENT_LOOP_REMOVE s))"

definition dbusToggleWatch :: "DBusWatch \<Rightarrow> loop_state \<Rightarrow> loop_state" where
  "dbusToggleWatch watch s =
     (if watch_enabled watch then snd (dbusAddWatch watch s) else dbusRemoveWatch watch s)"

subsection \<open>The Watch Set\<close>

text \<open>
  \<open>(flags & DBUS_WATCH_READABLE ? POLLIN : 0) | (flags & DBUS_WATCH_WRITABLE ? POLLOUT : 0)\<close>,
  an \<open>int\<close>.
\<close>

definition watchEvents :: "cint \<Rightarrow> cint" where
  "watchEvents flags =
     (if flags AND DBUS_WATCH_READABLE \<noteq> 0 then POLLIN else 0)
       OR (if flags AND DBUS_WATCH_WRITABLE \<noteq> 0 then POLLOUT else 0)"

text \<open>
  \<open>(nat->pollData[y].fd == newFD) && (nat->pollData[y].events == events)\<close>: the
  \<open>short\<close> is promoted to \<open>int\<close> for the comparison.
\<close>

definition sameWatch :: "pollfd \<Rightarrow> cint \<Rightarrow> cint \<Rightarrow> bool" where
  "sameWatch p newFD ev \<longleftrightarrow> fd p = newFD \<and> scast (events p) = ev"

text \<open>
  The loop \<open>for (int y = 0; y < nat->pollMemberCount; y++)\<close> of both handlers, from
  \<open>y\<close> on: the first index whose cell matches, if any.
\<close>

function findWatch :: "pollfd list \<Rightarrow> nat \<Rightarrow> nat \<Rightarrow> cint \<Rightarrow> cint \<Rightarrow> nat option" where
  "findWatch pd n y newFD ev =
     (if y < n then
        (if sameWatch (pd ! y) newFD ev then Some y else findWatch pd n (Suc y) newFD ev)
      else None)"
  by pat_completeness auto
termination
  by (relation "measure (\<lambda>(pd, n, y, newFD, ev). n - y)") auto

declare findWatch.simps [simp del]

text \<open>
  The result of a handler: \<open>None\<close> where the C code has no defined behaviour (a
  control message cut short, a \<open>NULL\<close> buffer, a cell outside its block).

  \<open>handleWatchAdd\<close> is its three reads followed by \<open>addWatch\<close>, the rest of its
  body. The two results of \<open>malloc\<close> are arguments: \<open>None\<close> is \<open>NULL\<close>, and
  \<open>Some j\<close> is a block whose last cell, which \<open>memcpy\<close> does not reach, holds
  \<open>j\<close>.
\<close>

definition addWatch ::
  "pollfd option \<Rightarrow> ptr option \<Rightarrow> cint \<Rightarrow> cint \<Rightarrow> ptr \<Rightarrow> loop_state \<Rightarrow> loop_state option" where
  "addWatch temp temp2 newFD flags watch s =
     (case (pollData s, watchData s) of
        (Some pd, Some wd) \<Rightarrow>
          (let ev = watchEvents flags; n = pollMemberCount s;
               cell = \<lparr>fd = newFD, events = ucast ev, revents = 0\<rparr> in
           if length pd < n then None
           else if findWatch pd n 0 newFD ev \<noteq> None then
             Some (logv ''DBusWatch duplicate add'' s)
           else if n = pollDataSize s then
             (let s' = logv ''Bluetooth EventLoop poll struct growing'' s in
              (case temp of
                 None \<Rightarrow> Some s'
               | Some j \<Rightarrow>
                  (let pd' = take n pd @ [j]; s'' = s'\<lparr>pollData := Some pd'\<rparr> in
                   (case temp2 of
                      None \<Rightarrow> Some s''
                    | Some j2 \<Rightarrow>
                       (if length wd < n then None
                        else Some (s''\<lparr>pollData := Some (list_update pd' n cell),
                                      watchData := Some (list_update (take n wd @ [j2]) n watch),
                                      pollDataSize := Suc (pollDataSize s),
                                      pollMemberCount := Suc n\<rparr>))))))
           else if n < length pd \<and> n < length wd then
             Some (s\<lparr>pollData := Some (list_update pd n cell),
                     watchData := Some (list_update wd n watch),
                     pollMemberCount := Suc n\<rparr>)
           else None)
      | _ \<Rightarrow> None)"

definition handleWatchAdd ::
  "pollfd option \<Rightarrow> ptr option \<Rightarrow> loop_state \<Rightarrow> loop_state option" where
  "handleWatchAdd temp temp2 s0 =
     Option.bind (read32 s0) (\<lambda>(newFD, s1).
     Option.bind (read32 s1) (\<lambda>(flags, s2).
     Option.bind (read32 s2) (\<lambda>(watch, s).
       addWatch temp temp2 newFD flags watch s)))"

text \<open>
  \<open>handleWatchRemove\<close>: the two reads, then \<open>removeWatch\<close>, which copies the last
  live cell over the first match.
\<close>

definition removeWatch :: "cint \<Rightarrow> cint \<Rightarrow> loop_state \<Rightarrow> loop_state option" where
  "removeWatch removeFD flags s =
     (case (pollData s, watchData s) of
        (Some pd, Some wd) \<Rightarrow>
          (let ev = watchEvents flags; n = pollMemberCount s in
           if length pd < n then None
           else (case findWatch pd n 0 removeFD ev of
              Some y \<Rightarrow>
                (let newCount = n - 1 in
                 if length wd \<le> newCount then None
                 else Some (s\<lparr>pollMemberCount := newCount,
                              pollData := Some (list_update pd y (pd ! newCount)),
                              watchData := Some (list_update wd y (wd ! newCount))\<rparr>))
            | None \<Rightarrow> Some (logw ''WatchRemove given with unknown watch'' s)))
      | _ \<Rightarrow> None)"

definition handleWatchRemove :: "loop_state \<Rightarrow> loop_state option" where
  "handleWatchRemove s0 =
     Option.bind (read32 s0) (\<lambda>(removeFD, s1).
     Option.bind (read32 s1) (\<lambda>(flags, s).
       removeWatch removeFD flags s))"

text \<open>
  The worker's loop over the Control Channel, in \<open>eventLoopMain\<close>:
  \<open>while (recv(nat->controlFdR, &data, sizeof(char), MSG_DONTWAIT) != -1) switch (data) ...\<close>.
  It ends when the channel is empty (the result is paired with \<open>False\<close>) or at
  \<open>EVENT_LOOP_EXIT\<close> (paired with \<open>True\<close>: the thread tears the connection's
  hooks down and returns, which leaves the Watch Set as it is); a byte that is no tag is
  skipped. Each \<open>handleWatchAdd\<close> takes its two \<open>malloc\<close> results from the list
  \<open>heap\<close>; when the list is used up, \<open>malloc\<close> fails.
\<close>

fun mallocs :: "(pollfd option \<times> ptr option) list \<Rightarrow> pollfd option \<times> ptr option" where
  "mallocs [] = (None, None)"
| "mallocs (m # ms) = m"

function recvLoop ::
  "(pollfd option \<times> ptr option) list \<Rightarrow> loop_state \<Rightarrow> (bool \<times> loop_state) option" where
  "recvLoop heap s =
     (case chan s of
        [] \<Rightarrow> Some (False, s)
      | data # rest \<Rightarrow>
          if data = EVENT_LOOP_EXIT then Some (True, s\<lparr>chan := rest\<rparr>)
          else if data = EVENT_LOOP_ADD then
            (case handleWatchAdd (fst (mallocs heap)) (snd (mallocs heap)) (s\<lparr>chan := rest\<rparr>) of
               None \<Rightarrow> None
             | Some s' \<Rightarrow> recvLoop (tl heap) s')
          else if data = EVENT_LOOP_REMOVE then
            (case handleWatchRemove (s\<lparr>chan := rest\<rparr>) of
               None \<Rightarrow> None
             | Some s' \<Rightarrow> recvLoop heap s')
          else recvLoop heap (s\<lparr>chan := rest\<rparr>))"
  by pat_completeness auto
termination
proof (relation "measure (\<lambda>(heap, s). length (chan s))")
  have rd: "length r < length bs" if "rd32 bs = Some (w, r)" for bs w r
    using that by (induction bs rule: rd32.induct) auto
  have read: "length (chan s') < length (chan s)" if "read32 s = Some (w, s')" for s w s'
    using that by (auto simp: read32_def dest: rd split: option.splits)
  have add: "chan s' = chan s" if "addWatch t t2 f fl w s = Some s'" for t t2 f fl w s s'
    using that by (auto simp: addWatch_def Let_def logv_def split: option.splits if_splits)
  have remove: "chan s' = chan s" if "removeWatch f fl s = Some s'" for f fl s s'
    using that by (auto simp: removeWatch_def Let_def logw_def split: option.splits if_splits)
  have handleAdd: "length (chan s') < length (chan s)"
    if "handleWatchAdd t t2 s = Some s'" for t t2 s s'
    using that
    by (fastforce simp: handleWatchAdd_def dest: read add split: Option.bind_splits)
  have handleRemove: "length (chan s') < length (chan s)"
    if "handleWatchRemove s = Some s'" for s s'
    using that
    by (fastforce simp: handleWatchRemove_def dest: read remove split: Option.bind_splits)
  {
    show "wf (measure (\<lambda>(heap, s). length (chan s)))" by simp
  next
    fix heap :: "(pollfd option \<times> ptr option) list" and s :: loop_state and data rest s'
    assume "chan s = data # rest"
      and "handleWatchAdd (fst (mallocs heap)) (snd (mallocs heap)) (s\<lparr>chan := rest\<rparr>) = Some s'"
    then show "((tl heap, s'), (heap, s)) \<in> measure (\<lambda>(heap, s). length (chan s))"
      by (auto dest: handleAdd)
  next
    fix heap :: "(pollfd option \<times> ptr option) list" and s :: loop_state and data rest s'
    assume "chan s = data # rest" and "handleWatchRemove (s\<lparr>chan := rest\<rparr>) = Some s'"
    then show "((heap, s'), (heap, s)) \<in> measure (\<lambda>(heap, s). length (chan s))"
      by (auto dest: handleRemove)
  next
    fix heap :: "(pollfd option \<times> ptr option) list" and s :: loop_state and data rest
    assume "chan s = data # rest"
    then show "((heap, s\<lparr>chan := rest\<rparr>), (heap, s)) \<in> measure (\<lambda>(heap, s). length (chan s))"
      by simp
  }
qed

declare recvLoop.simps [simp del]

text \<open>
  The control messages, as \<open>stopEventLoopNative\<close>, \<open>dbusAddWatch\<close> and
  \<open>dbusRemoveWatch\<close> write them, and a sequence of them in the channel.
\<close>

datatype ControlMessage = Exit | AddWatch cint cint ptr | RemoveWatch cint cint

fun encodeMessage :: "ControlMessage \<Rightarrow> byte list" where
  "encodeMessage Exit = [EVENT_LOOP_EXIT]"
| "encodeMessage (AddWatch f flags watch) = EVENT_LOOP_ADD # le32 f @ le32 flags @ le32 watch"
| "encodeMessage (RemoveWatch f flags) = EVENT_LOOP_REMOVE # le32 f @ le32 flags"

definition encode :: "ControlMessage list \<Rightarrow> byte list" where
  "encode ms = concat (map encodeMessage ms)"

text \<open>
  The Watch Set: the live cells of the two buffers, side by side; its keys, the
  (descriptor, events) pairs; and the shape the code keeps the buffers in.
\<close>

definition watchSet :: "loop_state \<Rightarrow> (pollfd \<times> ptr) list" where
  "watchSet s =
     (case (pollData s, watchData s) of
        (Some pd, Some wd) \<Rightarrow> take (pollMemberCount s) (zip pd wd)
      | _ \<Rightarrow> [])"

definition watchKey :: "pollfd \<times> ptr \<Rightarrow> cint \<times> cshort" where
  "watchKey e = (fd (fst e), events (fst e))"

definition wellFormed :: "loop_state \<Rightarrow> bool" where
  "wellFormed s =
     (case (pollData s, watchData s) of
        (Some pd, Some wd) \<Rightarrow>
          pollMemberCount s \<le> pollDataSize s \<and> pollDataSize s \<le> length pd
          \<and> pollDataSize s \<le> length wd
      | _ \<Rightarrow> False)"

definition watchInv :: "loop_state \<Rightarrow> bool" where
  "watchInv s \<longleftrightarrow> wellFormed s \<and> distinct (map watchKey (watchSet s))"

subsection \<open>Starting the loop\<close>

text \<open>
  What \<open>startEventLoopNative\<close> gets from outside: the constant
  \<open>DEFAULT_INITIAL_POLLFD_COUNT\<close> (of android\_bluetooth\_common.h), whether each
  \<open>malloc\<close> succeeds, the two descriptors of \<open>socketpair\<close> (\<open>None\<close> when it
  fails), the Java VM, the JNI version, the global reference to the Java object, what
  \<open>setUpEventLoop\<close> returns and the adapter path it leaves in the structure (it
  talks to the bus only), and the new thread.
\<close>

record start_env =
  DEFAULT_INITIAL_POLLFD_COUNT :: nat
  malloc_pollData :: bool
  malloc_watchData :: bool
  socketpair :: "(cint \<times> cint) option"
  GetJavaVM :: ptr
  GetVersion :: cint
  NewGlobalRef :: ptr
  setUpEventLoop :: bool
  setUpEventLoop_adapter :: "string option"
  pthread_create :: nat

definition effects :: "effect list \<Rightarrow> loop_state \<Rightarrow> loop_state" where
  "effects es s = s\<lparr>trace := trace s @ es\<rparr>"

text \<open>The block after \<open>done:\<close> when \<open>result\<close> is \<open>JNI_FALSE\<close>, and the unlock.\<close>

definition startFailed :: "loop_state \<Rightarrow> loop_state" where
  "startFailed s =
     (let s1 = (if controlFdW s \<noteq> 0 \<or> controlFdR s \<noteq> 0
                then (effects [Shutdown (controlFdW s)] s)\<lparr>controlFdW := 0, controlFdR := 0\<rparr>
                else s);
          s2 = (if me s1 \<noteq> 0 then effects [DeleteGlobalRef (me s1)] s1 else s1)
      in effects [MutexUnlock]
           (s2\<lparr>me := 0, pollData := None, watchData := None,
               pollDataSize := 0, pollMemberCount := 0\<rparr>))"

text \<open>
  \<open>startEventLoopNative\<close>. The blocks are shown with the zeroes that \<open>memset\<close>
  gives them before anything reads them. With \<open>DEFAULT_INITIAL_POLLFD_COUNT = 0\<close>
  the write to \<open>pollData[0]\<close> would be outside its block (\<open>None\<close>).
\<close>

definition startEventLoopNative :: "start_env \<Rightarrow> loop_state \<Rightarrow> (bool \<times> loop_state) option" where
  "startEventLoopNative e s0 =
     (let s = effects [MutexLock] s0; k = DEFAULT_INITIAL_POLLFD_COUNT e in
      if pollData s \<noteq> None then
        Some (False, effects [LogW ''trying to start EventLoop a second time!'', MutexUnlock] s)
      else if \<not> malloc_pollData e then
        Some (False, startFailed (effects [LogE ''out of memory error starting EventLoop!''] s))
      else
        (let s1 = s\<lparr>pollData := Some (replicate k \<lparr>fd = 0, events = 0, revents = 0\<rparr>)\<rparr> in
         if \<not> malloc_watchData e then
           Some (False, startFailed (effects [LogE ''out of memory error starting EventLoop!''] s1))
         else
           (let s2 = s1\<lparr>watchData := Some (replicate k 0), pollDataSize := k,
                        pollMemberCount := 1\<rparr> in
            (case socketpair e of
               None \<Rightarrow> Some (False, startFailed (effects [LogE ''Error getting BT control socket''] s2))
             | Some (r, w) \<Rightarrow>
                 if k = 0 then None
                 else
                   (let s3 = s2\<lparr>controlFdR := r, controlFdW := w,
                                pollData := Some (list_update (replicate k \<lparr>fd = 0, events = 0, revents = 0\<rparr>) 0
                                                    \<lparr>fd = r, events = ucast POLLIN, revents = 0\<rparr>),
                                vm := GetJavaVM e, envVer := GetVersion e, me := NewGlobalRef e,
                                adapter := setUpEventLoop_adapter e\<rparr> in
                    if \<not> setUpEventLoop e then
                      Some (False, startFailed (effects [LogE ''failure setting up Event Loop!''] s3))
                    else
                      Some (True, effects [PthreadCreate (pthread_create e), MutexUnlock]
                                    (s3\<lparr>thread := pthread_create e\<rparr>)))))))"

subsection \<open>The D-Bus library, as far as the filters use it\<close>

fun dbus_message_get_type :: "dbus_message \<Rightarrow> dbus_message_type" where
  "dbus_message_get_type (MethodCall n i m p a) = DBUS_MESSAGE_TYPE_METHOD_CALL"
| "dbus_message_get_type (MethodReturn n a) = DBUS_MESSAGE_TYPE_METHOD_RETURN"
| "dbus_message_get_type (Error n e t) = DBUS_MESSAGE_TYPE_ERROR"
| "dbus_message_get_type (Signal i m p a) = DBUS_MESSAGE_TYPE_SIGNAL"

fun dbus_message_get_serial :: "dbus_message \<Rightarrow> nat" where
  "dbus_message_get_serial (MethodCall n i m p a) = n"
| "dbus_message_get_serial _ = 0"

fun dbus_message_args :: "dbus_message \<Rightarrow> dbus_arg list" where
  "dbus_message_args (MethodCall n i m p a) = a"
| "dbus_message_args (MethodReturn n a) = a"
| "dbus_message_args (Error n e t) = [ArgString t]"
| "dbus_message_args (Signal i m p a) = a"

fun dbus_message_get_path :: "dbus_message \<Rightarrow> string" where
  "dbus_message_get_path (MethodCall n i m p a) = p"
| "dbus_message_get_path (Signal i m p a) = p"
| "dbus_message_get_path _ = []"

text \<open>A message without an interface matches every interface.\<close>

fun dbus_message_is_method_call :: "dbus_message \<Rightarrow> string \<Rightarrow> string \<Rightarrow> bool" where
  "dbus_message_is_method_call (MethodCall n i m p a) iface method \<longleftrightarrow>
     m = method \<and> (i = None \<or> i = Some iface)"
| "dbus_message_is_method_call _ iface method \<longleftrightarrow> False"

fun dbus_message_is_signal :: "dbus_message \<Rightarrow> string \<Rightarrow> string \<Rightarrow> bool" where
  "dbus_message_is_signal (Signal i m p a) iface name \<longleftrightarrow> m = name \<and> i = iface"
| "dbus_message_is_signal _ iface name \<longleftrightarrow> False"

text \<open>\<open>dbus_set_error_from_message\<close>: the error's name and text, for an error message.\<close>

fun dbus_set_error_from_message :: "dbus_message \<Rightarrow> (string \<times> string) option" where
  "dbus_set_error_from_message (Error n e t) = Some (e, t)"
| "dbus_set_error_from_message _ = None"

text \<open>
  \<open>dbus_message_get_args\<close> for the four lists of types this file asks for. The
  arguments asked for must be there, with their types; further arguments are not looked at.
\<close>

fun get_args_INT32 :: "dbus_arg list \<Rightarrow> cint option" where
  "get_args_INT32 (ArgInt32 v # _) = Some v"
| "get_args_INT32 _ = None"

fun get_args_STRING :: "dbus_arg list \<Rightarrow> string option" where
  "get_args_STRING (ArgString v # _) = Some v"
| "get_args_STRING _ = None"

fun get_args_OBJECT_PATH :: "dbus_arg list \<Rightarrow> string option" where
  "get_args_OBJECT_PATH (ArgObjectPath v # _) = Some v"
| "get_args_OBJECT_PATH _ = None"

fun get_args_OBJECT_PATH_STRING :: "dbus_arg list \<Rightarrow> (string \<times> string) option" where
  "get_args_OBJECT_PATH_STRING (ArgObjectPath p # ArgString u # _) = Some (p, u)"
| "get_args_OBJECT_PATH_STRING _ = None"

text \<open>
  \<open>strncmp(s, lit, strlen(lit)) == 0\<close>: the first \<open>strlen(lit)\<close> characters of
  \<open>s\<close> are those of \<open>lit\<close>.
\<close>

definition strncmp_eq :: "string \<Rightarrow> string \<Rightarrow> bool" where
  "strncmp_eq s lit \<longleftrightarrow> take (length lit) s = lit"

text \<open>
  \<open>get_adapter_path\<close>. From outside: whether the method call could be allocated, and
  the reply of \<open>dbus_connection_send_with_reply_and_block\<close> (\<open>None\<close> for
  \<open>NULL\<close>). The result is \<open>None\<close> for \<open>NULL\<close>.
\<close>

definition get_adapter_path ::
  "ptr \<Rightarrow> bool \<Rightarrow> dbus_message option \<Rightarrow> string option \<times> effect list" where
  "get_adapter_path c msg_ok reply =
     (if \<not> msg_ok then
        (None, [LogE ''%s: Can't allocate new method call for GetProperties!''])
      else
        (case reply of
           None \<Rightarrow>
             (None, [DBusCallBlocking c ''org.bluez'' ''/'' ''org.bluez.Manager'' ''DefaultAdapter'',
                     LogE ''LOG_AND_FREE_DBUS_ERROR'', DBusErrorFree])
         | Some r \<Rightarrow>
             (case get_args_OBJECT_PATH (dbus_message_args r) of
                None \<Rightarrow>
                  (None, [DBusCallBlocking c ''org.bluez'' ''/'' ''org.bluez.Manager'' ''DefaultAdapter'',
                          LogE ''LOG_AND_FREE_DBUS_ERROR'', DBusErrorFree])
              | Some device_path \<Rightarrow>
                  (Some device_path,
                   [DBusCallBlocking c ''org.bluez'' ''/'' ''org.bluez.Manager'' ''DefaultAdapter'']))))"

subsection \<open>The Signal Dispatcher\<close>

text \<open>
  What \<open>event_filter\<close> gets from outside: the string array of the helper that
  decodes the message's properties (\<open>parse_remote_device_properties\<close>,
  \<open>parse_adapter_property_change\<close> or \<open>parse_remote_device_property_change\<close>,
  declared in android\_bluetooth\_common.h; \<open>None\<close> for \<open>NULL\<close>), the two answers
  \<open>get_adapter_path\<close> needs, and the result of \<open>a2dp_event_filter\<close>.
\<close>

record filter_env =
  parse_properties :: "string list option"
  adapter_call_ok :: bool
  adapter_reply :: "dbus_message option"
  a2dp_event_filter :: DBusHandlerResult

text \<open>\<open>dbus_message_iter_get_basic(&iter, &c_address)\<close> gives a string for a string.\<close>

fun iter_get_basic_string :: "dbus_arg \<Rightarrow> string option" where
  "iter_get_basic_string (ArgString v) = Some v"
| "iter_get_basic_string (ArgObjectPath v) = Some v"
| "iter_get_basic_string _ = None"

text \<open>
  \<open>event_filter\<close>: the result, the value of \<open>nat->adapter\<close> afterwards, and the
  effects. It is \<open>None\<close> where the C code reads what is not there (an array
  element that does not exist, a string that is none).
\<close>

definition event_filter ::
  "loop_state \<Rightarrow> dbus_message \<Rightarrow> filter_env \<Rightarrow>
     (DBusHandlerResult \<times> string option \<times> effect list) option" where
  "event_filter nd msg e =
     (if dbus_message_get_type msg \<noteq> DBUS_MESSAGE_TYPE_SIGNAL then
        Some (DBUS_HANDLER_RESULT_NOT_YET_HANDLED, adapter nd,
              [LogV ''%s: not interested (not a signal).''])
      else
        (let received = LogE ''%s: Received signal %s:%s from %s'';
             bad = [LogE ''LOG_AND_FREE_DBUS_ERROR_WITH_MSG'', DBusErrorFree] in
         if dbus_message_is_signal msg ''org.bluez.Adapter'' ''DeviceFound'' then
           (case dbus_message_args msg of
              a # b # rest \<Rightarrow>
                (case parse_properties e of
                   None \<Rightarrow> Some (DBUS_HANDLER_RESULT_HANDLED, adapter nd, received # bad)
                 | Some str_array \<Rightarrow>
                     (case iter_get_basic_string a of
                        None \<Rightarrow> None
                      | Some c_address \<Rightarrow>
                          Some (DBUS_HANDLER_RESULT_HANDLED, adapter nd,
                                [received, CallJava (me nd) (onDeviceFound c_address str_array)])))
            | _ \<Rightarrow> Some (DBUS_HANDLER_RESULT_HANDLED, adapter nd, received # bad))
         else if dbus_message_is_signal msg ''org.bluez.Adapter'' ''DeviceDisappeared'' then
           (case get_args_STRING (dbus_message_args msg) of
              Some c_address \<Rightarrow>
                Some (DBUS_HANDLER_RESULT_HANDLED, adapter nd,
                      [received, LogV ''... address = %s'',
                       CallJava (me nd) (onDeviceDisappeared c_address)])
            | None \<Rightarrow> Some (DBUS_HANDLER_RESULT_HANDLED, adapter nd, received # bad))
         else if dbus_message_is_signal msg ''org.bluez.Adapter'' ''DeviceCreated'' then
           (case get_args_OBJECT_PATH (dbus_message_args msg) of
              Some c_object_path \<Rightarrow>
                Some (DBUS_HANDLER_RESULT_HANDLED, adapter nd,
                      [received, LogV ''... address = %s'',
                       CallJava (me nd) (onDeviceCreated c_object_path)])
            | None \<Rightarrow> Some (DBUS_HANDLER_RESULT_HANDLED, adapter nd, received # bad))
         else if dbus_message_is_signal msg ''org.bluez.Adapter'' ''DeviceRemoved'' then
           (case get_args_OBJECT_PATH (dbus_message_args msg) of
              Some c_object_path \<Rightarrow>
                Some (DBUS_HANDLER_RESULT_HANDLED, adapter nd,
                      [received, LogV ''... Object Path = %s'',
                       CallJava (me nd) (onDeviceRemoved c_object_path)])
            | None \<Rightarrow> Some (DBUS_HANDLER_RESULT_HANDLED, adapter nd, received # bad))
         else if dbus_message_is_signal msg ''org.bluez.Adapter'' ''PropertyChanged'' then
           (case parse_properties e of
              None \<Rightarrow> Some (DBUS_HANDLER_RESULT_HANDLED, adapter nd, received # bad)
            | Some str_array \<Rightarrow>
                (case str_array of
                   [] \<Rightarrow> None
                 | c_property # values \<Rightarrow>
                     if strncmp_eq c_property ''Powered'' then
                       (case values of
                          [] \<Rightarrow> None
                        | c_value # _ \<Rightarrow>
                            if strncmp_eq c_value ''true'' then
                              (let (path, es) =
                                     get_adapter_path (conn nd) (adapter_call_ok e) (adapter_reply e)
                               in Some (DBUS_HANDLER_RESULT_HANDLED, path,
                                        received # es @ [CallJava (me nd) (onPropertyChanged str_array)]))
                            else
                              Some (DBUS_HANDLER_RESULT_HANDLED, adapter nd,
                                    [received, CallJava (me nd) (onPropertyChanged str_array)]))
                     else
                       Some (DBUS_HANDLER_RESULT_HANDLED, adapter nd,
                             [received, CallJava (me nd) (onPropertyChanged str_array)])))
         else if dbus_message_is_signal msg ''org.bluez.Device'' ''PropertyChanged'' then
           (case parse_properties e of
              None \<Rightarrow> Some (DBUS_HANDLER_RESULT_HANDLED, adapter nd, received # bad)
            | Some str_array \<Rightarrow>
                Some (DBUS_HANDLER_RESULT_HANDLED, adapter nd,
                      [received,
                       CallJava (me nd)
                         (onDevicePropertyChanged (dbus_message_get_path msg) str_array)]))
         else Some (a2dp_event_filter e, adapter nd, [received])))"

subsection \<open>The Agent Responder\<close>

text \<open>
  \<open>agent_event_filter\<close>. From outside: what the Java side answers to
  \<open>onAgentAuthorize\<close>, and whether the reply message could be created
  (\<open>dbus_message_new_method_return\<close> and \<open>dbus_message_new_error\<close> return
  \<open>NULL\<close> without memory). \<open>data\<close> is \<open>None\<close> for a null pointer.
\<close>

definition dbus_message_new_method_return :: "dbus_message \<Rightarrow> dbus_message" where
  "dbus_message_new_method_return msg = MethodReturn (dbus_message_get_serial msg) []"

definition dbus_message_new_error :: "dbus_message \<Rightarrow> string \<Rightarrow> string \<Rightarrow> dbus_message" where
  "dbus_message_new_error msg name text = Error (dbus_message_get_serial msg) name text"

definition agent_event_filter ::
  "loop_state option \<Rightarrow> dbus_message \<Rightarrow> bool \<Rightarrow> bool \<Rightarrow> DBusHandlerResult \<times> effect list" where
  "agent_event_filter data msg auth_granted reply_ok =
     (if dbus_message_get_type msg \<noteq> DBUS_MESSAGE_TYPE_METHOD_CALL then
        (DBUS_HANDLER_RESULT_NOT_YET_HANDLED, [LogV ''%s: not interested (not a method call).''])
      else
        (let received = LogI ''%s: Received method %s:%s'';
             no_reply = LogE ''%s: Cannot create message reply\<newline>'' in
         case data of
           None \<Rightarrow> (DBUS_HANDLER_RESULT_HANDLED, [received])
         | Some nd \<Rightarrow>
             if dbus_message_is_method_call msg ''org.bluez.Agent'' ''Cancel'' then
               (if \<not> reply_ok then
                  (DBUS_HANDLER_RESULT_NOT_YET_HANDLED,
                   [received, CallJava (me nd) onAgentCancel, no_reply])
                else
                  (DBUS_HANDLER_RESULT_HANDLED,
                   [received, CallJava (me nd) onAgentCancel,
                    DBusSend (conn nd) (dbus_message_new_method_return msg)]))
             else if dbus_message_is_method_call msg ''org.bluez.Agent'' ''Authorize'' then
               (case get_args_OBJECT_PATH_STRING (dbus_message_args msg) of
                  None \<Rightarrow>
                    (DBUS_HANDLER_RESULT_NOT_YET_HANDLED,
                     [received, LogE ''%s: Invalid arguments for Authorize() method''])
                | Some (object_path, uuid) \<Rightarrow>
                    (let called = [received, LogV ''... object_path = %s'', LogV ''... uuid = %s'',
                                   CallJava (me nd) (onAgentAuthorize object_path uuid)] in
                     if auth_granted then
                       (if \<not> reply_ok then (DBUS_HANDLER_RESULT_NOT_YET_HANDLED, called @ [no_reply])
                        else (DBUS_HANDLER_RESULT_HANDLED,
                              called @ [DBusSend (conn nd) (dbus_message_new_method_return msg)]))
                     else
                       (if \<not> reply_ok then (DBUS_HANDLER_RESULT_NOT_YET_HANDLED, called @ [no_reply])
                        else (DBUS_HANDLER_RESULT_HANDLED,
                              called @ [DBusSend (conn nd)
                                          (dbus_message_new_error msg ''org.bluez.Error.Rejected''
                                             ''Authorization rejected'')]))))
             else if dbus_message_is_method_call msg ''org.bluez.Agent'' ''RequestPinCode'' then
               (case get_args_OBJECT_PATH (dbus_message_args msg) of
                  None \<Rightarrow>
                    (DBUS_HANDLER_RESULT_NOT_YET_HANDLED,
                     [received, LogE ''%s: Invalid arguments for RequestPinCode() method''])
                | Some object_path \<Rightarrow>
                    (DBUS_HANDLER_RESULT_HANDLED,
                     [received, DBusMessageRef (dbus_message_get_serial msg),
                      CallJava (me nd)
                        (onRequestPinCode object_path (dbus_message_get_serial msg))]))
             else if dbus_message_is_method_call msg ''org.bluez.Agent'' ''Release'' then
               (if \<not> reply_ok then (DBUS_HANDLER_RESULT_NOT_YET_HANDLED, [received, no_reply])
                else (DBUS_HANDLER_RESULT_HANDLED,
                      [received, DBusSend (conn nd) (dbus_message_new_method_return msg)]))
             else (DBUS_HANDLER_RESULT_NOT_YET_HANDLED, [received, LogV ''%s:%s is ignored''])))"

subsection \<open>The method ids\<close>

text \<open>
  The file's \<open>static jmethodID\<close> variables: \<open>NULL\<close> (\<open>None\<close>) when the
  library is loaded, as statics are, and then what \<open>classInitNative\<close> assigns.
  From outside: \<open>GetMethodID\<close> of the Java class, by name and signature.
\<close>

record method_ids =
  method_onPropertyChanged :: "jmethodID option"
  method_onDevicePropertyChanged :: "jmethodID option"
  method_onDeviceFound :: "jmethodID option"
  method_onDeviceDisappeared :: "jmethodID option"
  method_onDeviceCreated :: "jmethodID option"
  method_onDeviceRemoved :: "jmethodID option"
  method_onCreatePairedDeviceResult :: "jmethodID option"
  method_onGetDeviceServiceChannelResult :: "jmethodID option"
  method_onRequestPinCode :: "jmethodID option"
  method_onAgentAuthorize :: "jmethodID option"
  method_onAgentCancel :: "jmethodID option"

definition staticsAtLoad :: method_ids where
  "staticsAtLoad =
     \<lparr>method_onPropertyChanged = None, method_onDevicePropertyChanged = None,
      method_onDeviceFound = None, method_onDeviceDisappeared = None,
      method_onDeviceCreated = None, method_onDeviceRemoved = None,
      method_onCreatePairedDeviceResult = None,
      method_onGetDeviceServiceChannelResult = None,
      method_onRequestPinCode = None, method_onAgentAuthorize = None,
      method_onAgentCancel = None\<rparr>"

text \<open>
  \<open>classInitNative\<close>: ten assignments, in the order of the source (the eleventh,
  of the field id \<open>field_mNativeData\<close>, is of no method).
\<close>

definition classInitNative ::
  "(string \<Rightarrow> string \<Rightarrow> jmethodID option) \<Rightarrow> method_ids \<Rightarrow> method_ids" where
  "classInitNative GetMethodID ids =
     ids\<lparr>method_onPropertyChanged :=
           GetMethodID ''onPropertyChanged'' ''([Ljava/lang/String;)V'',
         method_onDevicePropertyChanged :=
           GetMethodID ''onDevicePropertyChanged'' ''(Ljava/lang/String;[Ljava/lang/String;)V'',
         method_onDeviceFound :=
           GetMethodID ''onDeviceFound'' ''(Ljava/lang/String;[Ljava/lang/String;)V'',
         method_onDeviceDisappeared :=
           GetMethodID ''onDeviceDisappeared'' ''(Ljava/lang/String;)V'',
         method_onDeviceCreated := GetMethodID ''onDeviceCreated'' ''(Ljava/lang/String;)V'',
         method_onDeviceRemoved := GetMethodID ''onDeviceRemoved'' ''(Ljava/lang/String;)V'',
         method_onCreatePairedDeviceResult :=
           GetMethodID ''onCreatePairedDeviceResult'' ''(Ljava/lang/String;I)V'',
         method_onAgentAuthorize :=
           GetMethodID ''onAgentAuthorize'' ''(Ljava/lang/String;Ljava/lang/String;)Z'',
         method_onAgentCancel := GetMethodID ''onAgentCancel'' ''()V'',
         method_onRequestPinCode := GetMethodID ''onRequestPinCode'' ''(Ljava/lang/String;I)V''\<rparr>"

subsection \<open>The asynchronous results\<close>

definition BOND_RESULT_ERROR :: int where "BOND_RESULT_ERROR = - 1000"
definition BOND_RESULT_SUCCESS :: int where "BOND_RESULT_SUCCESS = 0"
definition BOND_RESULT_AUTH_FAILED :: int where "BOND_RESULT_AUTH_FAILED = 1"
definition BOND_RESULT_AUTH_REJECTED :: int where "BOND_RESULT_AUTH_REJECTED = 2"
definition BOND_RESULT_AUTH_CANCELED :: int where "BOND_RESULT_AUTH_CANCELED = 3"
definition BOND_RESULT_REMOTE_DEVICE_DOWN :: int where "BOND_RESULT_REMOTE_DEVICE_DOWN = 4"
definition BOND_RESULT_DISCOVERY_IN_PROGRESS :: int where "BOND_RESULT_DISCOVERY_IN_PROGRESS = 5"

text \<open>
  The result code of \<open>onCreatePairedDeviceResult\<close>, \<open>None\<close> where the code jumps
  to \<open>done\<close> past the call. \<open>BLUEZ_DBUS_BASE_IFC\<close> is a string of
  android\_bluetooth\_common.h, and so an argument.
\<close>

definition bondResult :: "string \<Rightarrow> dbus_message \<Rightarrow> int option" where
  "bondResult BLUEZ_DBUS_BASE_IFC msg =
     (case dbus_set_error_from_message msg of
        None \<Rightarrow> Some BOND_RESULT_SUCCESS
      | Some (name, message) \<Rightarrow>
          if name = BLUEZ_DBUS_BASE_IFC @ ''.Error.AuthenticationFailed'' then
            Some BOND_RESULT_AUTH_FAILED
          else if name = BLUEZ_DBUS_BASE_IFC @ ''.Error.AuthenticationRejected'' then
            Some BOND_RESULT_AUTH_REJECTED
          else if name = BLUEZ_DBUS_BASE_IFC @ ''.Error.AuthenticationCanceled'' then
            Some BOND_RESULT_AUTH_CANCELED
          else if name = BLUEZ_DBUS_BASE_IFC @ ''.Error.ConnectionAttemptFailed'' then
            Some BOND_RESULT_REMOTE_DEVICE_DOWN
          else if name = BLUEZ_DBUS_BASE_IFC @ ''.Error.AlreadyExists'' then
            Some BOND_RESULT_SUCCESS
          else if name = BLUEZ_DBUS_BASE_IFC @ ''.Error.InProgress''
                  \<and> message = ''Bonding in progress'' then
            None
          else if name = BLUEZ_DBUS_BASE_IFC @ ''.Error.InProgress''
                  \<and> message = ''Discover in progress'' then
            Some BOND_RESULT_DISCOVERY_IN_PROGRESS
          else Some BOND_RESULT_ERROR)"

text \<open>
  \<open>onCreatePairedDeviceResult(msg, user, n)\<close>: \<open>user\<close> is the heap block that
  holds the string \<open>address\<close>.
\<close>

definition onCreatePairedDeviceResult ::
  "string \<Rightarrow> dbus_message \<Rightarrow> ptr \<Rightarrow> string \<Rightarrow> loop_state \<Rightarrow> effect list" where
  "onCreatePairedDeviceResult BLUEZ_DBUS_BASE_IFC msg user address nd =
     [LogV ''onCreatePairedDeviceResult'', LogV ''... address = %s'']
     @ (case bondResult BLUEZ_DBUS_BASE_IFC msg of
          None \<Rightarrow> [LogV ''... error = %s (%s)\<newline>'']
        | Some result \<Rightarrow>
            (if dbus_set_error_from_message msg = None then []
             else if result = BOND_RESULT_ERROR then [LogE ''%s: D-Bus error: %s (%s)\<newline>'']
             else [LogV ''... error = %s (%s)\<newline>''])
            @ [CallJava (me nd) (onCreatePairedDeviceResultJ address result)])
     @ [DBusErrorFree, Free user]"

text \<open>
  \<open>onGetDeviceServiceChannelResult(msg, user, n)\<close>, with the method-id variables
  as they are when it runs: the call goes through
  \<open>method_onGetDeviceServiceChannelResult\<close>, whatever that holds.
\<close>

definition onGetDeviceServiceChannelResult ::
  "method_ids \<Rightarrow> dbus_message \<Rightarrow> ptr \<Rightarrow> string \<Rightarrow> loop_state \<Rightarrow> effect list" where
  "onGetDeviceServiceChannelResult ids msg user address nd =
     [LogV ''onGetDeviceServiceChannelResult'', LogV ''... address = %s'']
     @ (let decoded =
              (if dbus_set_error_from_message msg \<noteq> None then None
               else get_args_INT32 (dbus_message_args msg));
            channel = (case decoded of None \<Rightarrow> - 2 | Some c \<Rightarrow> sint c)
        in (case decoded of
              None \<Rightarrow> [LogE ''%s: D-Bus error: %s (%s)\<newline>'', DBusErrorFree]
            | Some c \<Rightarrow> [])
           @ (case method_onGetDeviceServiceChannelResult ids of
                None \<Rightarrow> [CallVoidMethodID (me nd) None address channel]
              | Some m \<Rightarrow>
                  [CallVoidMethodID (me nd) (Some m) address channel, Free user]))"

text \<open>What a list of effects holds of each kind.\<close>

fun javaCalls :: "effect list \<Rightarrow> jcall list" where
  "javaCalls [] = []"
| "javaCalls (CallJava m c # es) = c # javaCalls es"
| "javaCalls (e # es) = javaCalls es"

fun sent :: "effect list \<Rightarrow> (ptr \<times> dbus_message) list" where
  "sent [] = []"
| "sent (DBusSend c m # es) = (c, m) # sent es"
| "sent (e # es) = sent es"

fun freed :: "effect list \<Rightarrow> ptr list" where
  "freed [] = []"
| "freed (Free p # es) = p # freed es"
| "freed (e # es) = freed es"

fun warnings :: "effect list \<Rightarrow> string list" where
  "warnings [] = []"
| "warnings (LogW m # es) = m # warnings es"
| "warnings (e # es) = warnings es"

fun errorsLogged :: "effect list \<Rightarrow> string list" where
  "errorsLogged [] = []"
| "errorsLogged (LogE m # es) = m # errorsLogged es"
| "errorsLogged (e # es) = errorsLogged es"

fun methodCalls :: "effect list \<Rightarrow> (jmethodID \<times> string \<times> int) list" where
  "methodCalls [] = []"
| "methodCalls (CallVoidMethodID obj (Some m) str i # es) = (m, str, i) # methodCalls es"
| "methodCalls (e # es) = methodCalls es"

fun threadsCreated :: "effect list \<Rightarrow> nat list" where
  "threadsCreated [] = []"
| "threadsCreated (PthreadCreate t # es) = t # threadsCreated es"
| "threadsCreated (e # es) = threadsCreated es"

subsection \<open>A running loop, for examples\<close>

text \<open>
  A loop that watches its control descriptor 10 for reading and descriptor 12 for
  writing, in buffers of two cells.
\<close>

definition running2 :: loop_state where
  "running2 = \<lparr>conn = 1, adapter = None, thread = 1,
     pollData = Some [\<lparr>fd = 10, events = 1, revents = 0\<rparr>, \<lparr>fd = 12, events = 4, revents = 0\<rparr>],
     pollMemberCount = 2, pollDataSize = 2, watchData = Some [0, 500],
     controlFdR = 10, controlFdW = 11, vm = 1, envVer = 4, me = 1,
     chan = [], trace = []\<rparr>"

text \<open>An idle loop, a start in which everything succeeds, and three control messages.\<close>

definition idle :: loop_state where
  "idle = \<lparr>conn = 1, adapter = None, thread = 0, pollData = None, pollMemberCount = 0,
     pollDataSize = 0, watchData = None, controlFdR = 0, controlFdW = 0, vm = 0, envVer = 0,
     me = 0, chan = [], trace = []\<rparr>"

definition startOK :: start_env where
  "startOK = \<lparr>DEFAULT_INITIAL_POLLFD_COUNT = 8, malloc_pollData = True, malloc_watchData = True,
     socketpair = Some (10, 11), GetJavaVM = 1, GetVersion = 65540, NewGlobalRef = 2,
     setUpEventLoop = True, setUpEventLoop_adapter = Some ''/org/bluez/hci0'',
     pthread_create = 1\<rparr>"

definition threeMessages :: "ControlMessage list" where
  "threeMessages = [AddWatch 13 1 600, AddWatch 13 1 600, RemoveWatch 12 2]"

text \<open>
  An \<open>Authorize\<close> call to the agent, an \<open>org.bluez.Adapter.PropertyChanged\<close>
  signal, and an environment in which the signal decodes to a given string array and
  the \<open>DefaultAdapter\<close> lookup answers \<open>/org/bluez/hci1\<close>.
\<close>

definition authorizeCall :: dbus_message where
  "authorizeCall = MethodCall 7 (Some ''org.bluez.Agent'') ''Authorize''
     ''/android/bluetooth/agent''
     [ArgObjectPath ''/org/bluez/hci0/dev_00_11_22_33_44_55'', ArgString ''1101'']"

definition adapterPropertyChanged :: dbus_message where
  "adapterPropertyChanged =
     Signal ''org.bluez.Adapter'' ''PropertyChanged'' ''/org/bluez/hci0'' []"

definition decoded :: "string list \<Rightarrow> filter_env" where
  "decoded str_array =
     \<lparr>parse_properties = Some str_array, adapter_call_ok = True,
      adapter_reply = Some (MethodReturn 9 [ArgObjectPath ''/org/bluez/hci1'']),
      a2dp_event_filter = DBUS_HANDLER_RESULT_NOT_YET_HANDLED\<rparr>"

section \<open>Properties\<close>

subsection \<open>The Control Channel carries what was written\<close>

lemma rd32_le32: "rd32 (le32 w @ r) = Some (w, r)"
  unfolding le32_def
  apply simp
  apply (rule bit_word_eqI)
  apply (auto simp: bit_simps)
  subgoal for n by (cases "n < 24") auto
  done

lemma read32_le32: "chan s = le32 w @ r \<Longrightarrow> read32 s = Some (w, s\<lparr>chan := r\<rparr>)"
  by (simp add: read32_def rd32_le32)

lemma handleWatchAdd_decode:
  assumes "chan s = le32 newFD @ le32 flags @ le32 watch @ rest"
  shows "handleWatchAdd temp temp2 s = addWatch temp temp2 newFD flags watch (s\<lparr>chan := rest\<rparr>)"
proof -
  have 1: "read32 s = Some (newFD, s\<lparr>chan := le32 flags @ le32 watch @ rest\<rparr>)"
    using assms by (rule read32_le32)
  have 2: "read32 (s\<lparr>chan := le32 flags @ le32 watch @ rest\<rparr>)
             = Some (flags, s\<lparr>chan := le32 watch @ rest\<rparr>)"
    using read32_le32 [of "s\<lparr>chan := le32 flags @ le32 watch @ rest\<rparr>" flags "le32 watch @ rest"]
    by simp
  have 3: "read32 (s\<lparr>chan := le32 watch @ rest\<rparr>) = Some (watch, s\<lparr>chan := rest\<rparr>)"
    using read32_le32 [of "s\<lparr>chan := le32 watch @ rest\<rparr>" watch rest] by simp
  show ?thesis by (simp add: handleWatchAdd_def 1 2 3)
qed

lemma handleWatchRemove_decode:
  assumes "chan s = le32 removeFD @ le32 flags @ rest"
  shows "handleWatchRemove s = removeWatch removeFD flags (s\<lparr>chan := rest\<rparr>)"
proof -
  have 1: "read32 s = Some (removeFD, s\<lparr>chan := le32 flags @ rest\<rparr>)"
    using assms by (rule read32_le32)
  have 2: "read32 (s\<lparr>chan := le32 flags @ rest\<rparr>) = Some (flags, s\<lparr>chan := rest\<rparr>)"
    using read32_le32 [of "s\<lparr>chan := le32 flags @ rest\<rparr>" flags rest] by simp
  show ?thesis by (simp add: handleWatchRemove_def 1 2)
qed

lemma scast_ucast_watchEvents: "scast (ucast (watchEvents f) :: cshort) = watchEvents f"
  by (simp add: watchEvents_def POLLIN_def POLLOUT_def)

lemma findWatch_None:
  "findWatch pd n y f e = None \<longleftrightarrow> (\<forall>i. y \<le> i \<and> i < n \<longrightarrow> \<not> sameWatch (pd ! i) f e)"
proof (induction pd n y f e rule: findWatch.induct)
  case (1 pd n y f e)
  show ?case
  proof (cases "y < n")
    case False then show ?thesis by (auto simp: findWatch.simps [of pd n y])
  next
    case True
    show ?thesis
    proof (cases "sameWatch (pd ! y) f e")
      case True with \<open>y < n\<close> show ?thesis by (auto simp: findWatch.simps [of pd n y])
    next
      case False
      with \<open>y < n\<close> 1 have "findWatch pd n y f e = None \<longleftrightarrow> (\<forall>i. Suc y \<le> i \<and> i < n \<longrightarrow> \<not> sameWatch (pd ! i) f e)"
        by (simp add: findWatch.simps [of pd n y])
      also have "\<dots> \<longleftrightarrow> (\<forall>i. y \<le> i \<and> i < n \<longrightarrow> \<not> sameWatch (pd ! i) f e)"
        using False by (metis Suc_leI le_neq_implies_less Suc_leD)
      finally show ?thesis .
    qed
  qed
qed

lemma findWatch_Some:
  "findWatch pd n y f e = Some k \<Longrightarrow> y \<le> k \<and> k < n \<and> sameWatch (pd ! k) f e \<and> (\<forall>i. y \<le> i \<and> i < k \<longrightarrow> \<not> sameWatch (pd ! i) f e)"
proof (induction pd n y f e rule: findWatch.induct)
  case (1 pd n y f e)
  show ?case
  proof (cases "y < n")
    case False with 1(2) show ?thesis by (simp add: findWatch.simps [of pd n y])
  next
    case True
    show ?thesis
    proof (cases "sameWatch (pd ! y) f e")
      case True with \<open>y < n\<close> 1 show ?thesis by (auto simp: findWatch.simps [of pd n y])
    next
      case False
      with \<open>y < n\<close> 1(2) have "findWatch pd n (Suc y) f e = Some k" by (simp add: findWatch.simps [of pd n y])
      with 1(1) [OF \<open>y < n\<close> False] have *: "Suc y \<le> k \<and> k < n \<and> sameWatch (pd ! k) f e \<and> (\<forall>i. Suc y \<le> i \<and> i < k \<longrightarrow> \<not> sameWatch (pd ! i) f e)" by simp
      then show ?thesis using False by (metis Suc_leD Suc_leI le_neq_implies_less)
    qed
  qed
qed

subsection \<open>The Watch Set under the two handlers\<close>

text \<open>The shape of a well-formed state.\<close>

lemma wellFormedE:
  assumes "wellFormed s"
  obtains pd wd where "pollData s = Some pd" "watchData s = Some wd"
    "pollMemberCount s \<le> pollDataSize s" "pollDataSize s \<le> length pd" "pollDataSize s \<le> length wd"
    "watchSet s = take (pollMemberCount s) (zip pd wd)"
    "length (watchSet s) = pollMemberCount s"
  using assms by (auto simp: wellFormed_def watchSet_def split: option.splits)

lemma watchSet_nth:
  assumes "pollData s = Some pd" "watchData s = Some wd" "pollMemberCount s \<le> length pd"
    "pollMemberCount s \<le> length wd" "i < pollMemberCount s"
  shows "watchSet s ! i = (pd ! i, wd ! i)"
  using assms by (simp add: watchSet_def)

lemma findWatch_watchSet:
  assumes "pollData s = Some pd" "watchData s = Some wd" "pollMemberCount s \<le> length pd"
    "pollMemberCount s \<le> length wd"
  shows "findWatch pd (pollMemberCount s) 0 f e = None \<longleftrightarrow>
           (\<forall>x \<in> set (watchSet s). \<not> sameWatch (fst x) f e)"
proof -
  have len: "length (watchSet s) = pollMemberCount s"
    using assms by (simp add: watchSet_def)
  have "(\<forall>x \<in> set (watchSet s). \<not> sameWatch (fst x) f e)
          \<longleftrightarrow> (\<forall>i < pollMemberCount s. \<not> sameWatch (fst (watchSet s ! i)) f e)"
    using len by (metis in_set_conv_nth)
  also have "\<dots> \<longleftrightarrow> (\<forall>i < pollMemberCount s. \<not> sameWatch (pd ! i) f e)"
    using assms by (simp add: watchSet_nth)
  finally show ?thesis by (simp add: findWatch_None)
qed

lemma watchSet_trace [simp]: "watchSet (s\<lparr>trace := t\<rparr>) = watchSet s"
  by (simp add: watchSet_def split: option.splits)

lemma watchSet_chan [simp]: "watchSet (s\<lparr>chan := c\<rparr>) = watchSet s"
  by (simp add: watchSet_def split: option.splits)

lemma wellFormed_trace [simp]: "wellFormed (s\<lparr>trace := t\<rparr>) = wellFormed s"
  by (simp add: wellFormed_def split: option.splits)

lemma wellFormed_chan [simp]: "wellFormed (s\<lparr>chan := c\<rparr>) = wellFormed s"
  by (simp add: wellFormed_def split: option.splits)

lemma addWatch_spec:
  assumes wf: "wellFormed s"
  shows "\<exists>s'. addWatch temp temp2 newFD flags watch s = Some s' \<and> wellFormed s' \<and> chan s' = chan s \<and>
    (if \<exists>x \<in> set (watchSet s). sameWatch (fst x) newFD (watchEvents flags)
     then s' = logv ''DBusWatch duplicate add'' s
     else if pollMemberCount s = pollDataSize s \<and> (temp = None \<or> temp2 = None)
     then watchSet s' = watchSet s \<and> pollMemberCount s' = pollMemberCount s
        \<and> pollDataSize s' = pollDataSize s
        \<and> trace s' = trace s @ [LogV ''Bluetooth EventLoop poll struct growing'']
     else watchSet s' = watchSet s @ [(\<lparr>fd = newFD, events = ucast (watchEvents flags), revents = 0\<rparr>, watch)]
        \<and> pollMemberCount s' = Suc (pollMemberCount s)
        \<and> trace s' = trace s @ (if pollMemberCount s = pollDataSize s
                                  then [LogV ''Bluetooth EventLoop poll struct growing''] else []))"
proof -
  from wf obtain pd wd where pd: "pollData s = Some pd" and wd: "watchData s = Some wd"
    and le: "pollMemberCount s \<le> pollDataSize s" "pollDataSize s \<le> length pd"
      "pollDataSize s \<le> length wd"
    and ws: "watchSet s = take (pollMemberCount s) (zip pd wd)"
    by (rule wellFormedE)
  define n where "n = pollMemberCount s"
  define ev where "ev = watchEvents flags"
  define cell where "cell = \<lparr>fd = newFD, events = ucast ev, revents = 0\<rparr>"
  have n: "n \<le> length pd" "n \<le> length wd" using le by (simp_all add: n_def)
  have fw: "findWatch pd n 0 newFD ev = None \<longleftrightarrow>
              (\<forall>x \<in> set (watchSet s). \<not> sameWatch (fst x) newFD ev)"
    unfolding n_def using pd wd n by (intro findWatch_watchSet) (simp_all add: n_def)
  show ?thesis
  proof (cases "findWatch pd n 0 newFD ev = None")
    case False
    then have "addWatch temp temp2 newFD flags watch s = Some (logv ''DBusWatch duplicate add'' s)"
      using pd wd n by (simp add: addWatch_def Let_def n_def ev_def)
    moreover have "\<exists>x \<in> set (watchSet s). sameWatch (fst x) newFD (watchEvents flags)"
      using False fw by (auto simp: ev_def)
    ultimately show ?thesis using wf by (simp add: logv_def)
  next
    case nodup: True
    then have nd: "\<not> (\<exists>x \<in> set (watchSet s). sameWatch (fst x) newFD (watchEvents flags))"
      using fw by (simp add: ev_def)
    show ?thesis
    proof (cases "n = pollDataSize s")
      case False
      then have lt: "n < length pd" "n < length wd" using le by (simp_all add: n_def)
      let ?s' = "s\<lparr>pollData := Some (list_update pd n cell),
                    watchData := Some (list_update wd n watch), pollMemberCount := Suc n\<rparr>"
      have r: "addWatch temp temp2 newFD flags watch s = Some ?s'"
        using pd wd n nodup False lt
        by (simp add: addWatch_def Let_def n_def ev_def cell_def)
      have "watchSet ?s' = take (Suc n) (zip (list_update pd n cell) (list_update wd n watch))"
        by (simp add: watchSet_def)
      also have "\<dots> = take (Suc n) (list_update (zip pd wd) n (cell, watch))"
        by (simp add: zip_update)
      also have "\<dots> = take n (zip pd wd) @ [(cell, watch)]"
        using lt by (simp add: take_Suc_conv_app_nth)
      finally have w: "watchSet ?s' = watchSet s @ [(cell, watch)]"
        by (simp add: ws n_def)
      have "wellFormed ?s'"
        using le False by (simp add: wellFormed_def n_def)
      then show ?thesis using r w nd False
        by (simp add: n_def cell_def ev_def)
    next
      case grow: True
      let ?g = "logv ''Bluetooth EventLoop poll struct growing'' s"
      show ?thesis
      proof (cases temp)
        case None
        then have "addWatch temp temp2 newFD flags watch s = Some ?g"
          using pd wd n nodup grow by (simp add: addWatch_def Let_def n_def ev_def)
        then show ?thesis using nd grow None wf by (simp add: n_def logv_def)
      next
        case (Some j)
        show ?thesis
        proof (cases temp2)
          case None
          let ?s' = "?g\<lparr>pollData := Some (take n pd @ [j])\<rparr>"
          have r: "addWatch temp temp2 newFD flags watch s = Some ?s'"
            using pd wd n nodup grow Some None
            by (simp add: addWatch_def Let_def n_def ev_def)
          have "watchSet ?s' = take n (zip (take n pd @ [j]) wd)"
            using wd by (simp add: watchSet_def logv_def n_def)
          also have "\<dots> = take n (zip pd wd)"
            using n by (simp add: take_zip)
          finally have w: "watchSet ?s' = watchSet s" by (simp add: ws n_def)
          have "wellFormed ?s'"
            using le wd grow n by (simp add: wellFormed_def logv_def n_def)
          then show ?thesis using r w nd grow None
            by (simp add: n_def logv_def)
        next
          case (Some j2)
          let ?s' = "?g\<lparr>pollData := Some (list_update (take n pd @ [j]) n cell),
                        watchData := Some (list_update (take n wd @ [j2]) n watch),
                        pollDataSize := Suc (pollDataSize s), pollMemberCount := Suc n\<rparr>"
          have r: "addWatch temp temp2 newFD flags watch s = Some ?s'"
            using pd wd n nodup grow \<open>temp = Some j\<close> Some
            by (simp add: addWatch_def Let_def n_def ev_def cell_def)
          have u1: "list_update (take n pd @ [j]) n cell = take n pd @ [cell]"
            using n by (simp add: list_update_append)
          have u2: "list_update (take n wd @ [j2]) n watch = take n wd @ [watch]"
            using n by (simp add: list_update_append)
          have "watchSet ?s' = take (Suc n) (zip (take n pd @ [cell]) (take n wd @ [watch]))"
            by (simp add: watchSet_def u1 u2)
          also have "\<dots> = zip (take n pd) (take n wd) @ [(cell, watch)]"
            using n by simp
          finally have w: "watchSet ?s' = watchSet s @ [(cell, watch)]"
            by (simp add: ws n_def take_zip)
          have "wellFormed ?s'"
            using grow n by (simp add: wellFormed_def logv_def n_def)
          then show ?thesis using r w nd grow \<open>temp = Some j\<close> Some
            by (simp add: n_def logv_def cell_def ev_def)
        qed
      qed
    qed
  qed
qed

lemma mset_swap_with_last:
  assumes "y < length xs"
  shows "add_mset (xs ! y) (mset (butlast (list_update xs y (last xs)))) = mset xs"
proof (cases xs rule: rev_cases)
  case Nil with assms show ?thesis by simp
next
  case (snoc ys l)
  show ?thesis
  proof (cases "y < length ys")
    case True
    then have "butlast (list_update xs y (last xs)) = list_update ys y l"
      by (simp add: snoc list_update_append)
    moreover have "xs ! y = ys ! y" using True by (simp add: snoc nth_append)
    ultimately show ?thesis using True by (simp add: snoc mset_update)
  next
    case False
    with assms have "y = length ys" by (simp add: snoc)
    then show ?thesis by (simp add: snoc)
  qed
qed

lemma distinct_swap_with_last:
  assumes "distinct (map f xs)" "y < length xs"
  shows "distinct (map f (butlast (list_update xs y (last xs))))"
proof (cases xs rule: rev_cases)
  case Nil with assms show ?thesis by simp
next
  case (snoc ys l)
  from assms(1) have d: "distinct (map f ys)" and l: "f l \<notin> set (map f ys)"
    by (simp_all add: snoc)
  show ?thesis
  proof (cases "y < length ys")
    case True
    then have "map f (butlast (list_update xs y (last xs))) = list_update (map f ys) y (f l)"
      by (simp add: snoc list_update_append map_update)
    moreover have "distinct (list_update (map f ys) y (f l))"
      using d l by (intro distinct_list_update) auto
    ultimately show ?thesis by simp
  next
    case False
    with assms(2) have "y = length ys" by (simp add: snoc)
    then show ?thesis using d by (simp add: snoc)
  qed
qed

lemma removeWatch_spec:
  assumes wf: "wellFormed s"
  shows "\<exists>s'. removeWatch removeFD flags s = Some s' \<and> wellFormed s' \<and> chan s' = chan s \<and>
    (if \<exists>x \<in> set (watchSet s). sameWatch (fst x) removeFD (watchEvents flags)
     then (\<exists>y < pollMemberCount s.
             sameWatch (fst (watchSet s ! y)) removeFD (watchEvents flags)
           \<and> (\<forall>i < y. \<not> sameWatch (fst (watchSet s ! i)) removeFD (watchEvents flags))
           \<and> watchSet s' = butlast (list_update (watchSet s) y (last (watchSet s))))
        \<and> pollMemberCount s' = pollMemberCount s - 1
        \<and> pollDataSize s' = pollDataSize s \<and> trace s' = trace s
     else s' = logw ''WatchRemove given with unknown watch'' s)"
proof -
  from wf obtain pd wd where pd: "pollData s = Some pd" and wd: "watchData s = Some wd"
    and le: "pollMemberCount s \<le> pollDataSize s" "pollDataSize s \<le> length pd"
      "pollDataSize s \<le> length wd"
    and ws: "watchSet s = take (pollMemberCount s) (zip pd wd)"
    and len: "length (watchSet s) = pollMemberCount s"
    by (rule wellFormedE)
  define n where "n = pollMemberCount s"
  define ev where "ev = watchEvents flags"
  have n: "n \<le> length pd" "n \<le> length wd" using le by (simp_all add: n_def)
  have fw: "findWatch pd n 0 removeFD ev = None \<longleftrightarrow>
              (\<forall>x \<in> set (watchSet s). \<not> sameWatch (fst x) removeFD ev)"
    unfolding n_def using pd wd n by (intro findWatch_watchSet) (simp_all add: n_def)
  show ?thesis
  proof (cases "findWatch pd n 0 removeFD ev")
    case None
    then have "removeWatch removeFD flags s = Some (logw ''WatchRemove given with unknown watch'' s)"
      using pd wd n by (simp add: removeWatch_def Let_def n_def ev_def)
    moreover have "\<not> (\<exists>x \<in> set (watchSet s). sameWatch (fst x) removeFD (watchEvents flags))"
      using None fw by (simp add: ev_def)
    ultimately show ?thesis using wf by (simp add: logw_def)
  next
    case (Some y)
    from findWatch_Some [OF Some]
    have y: "y < n" "sameWatch (pd ! y) removeFD ev"
      "\<forall>i. i < y \<longrightarrow> \<not> sameWatch (pd ! i) removeFD ev" by simp_all
    let ?s' = "s\<lparr>pollMemberCount := n - 1,
                  pollData := Some (list_update pd y (pd ! (n - 1))),
                  watchData := Some (list_update wd y (wd ! (n - 1)))\<rparr>"
    have r: "removeWatch removeFD flags s = Some ?s'"
      using pd wd n Some y(1) by (simp add: removeWatch_def Let_def n_def ev_def)
    have ex: "\<exists>x \<in> set (watchSet s). sameWatch (fst x) removeFD (watchEvents flags)"
      using Some fw by (auto simp: ev_def)
    have nth: "\<And>i. i < n \<Longrightarrow> watchSet s ! i = (pd ! i, wd ! i)"
      using pd wd n by (simp add: watchSet_nth n_def)
    have "n - 1 < length pd" "n - 1 < length wd" using y(1) n by arith+
    then have lz: "n - 1 < length (zip pd wd)" by simp
    have "watchSet s \<noteq> []" using y(1) len by (auto simp: n_def)
    then have "last (watchSet s) = watchSet s ! (n - 1)"
      using len by (simp add: last_conv_nth n_def)
    also have "\<dots> = zip pd wd ! (n - 1)"
      using y(1) unfolding ws n_def [symmetric] by (intro nth_take) arith
    finally have last: "last (watchSet s) = zip pd wd ! (n - 1)" .
    define zs where "zs = zip pd wd"
    have nz: "n \<le> length zs" using n by (simp add: zs_def)
    have "butlast (list_update (watchSet s) y (last (watchSet s)))
            = butlast (list_update (take n zs) y (zs ! (n - 1)))"
      by (subst last) (simp only: ws zs_def n_def)
    also have "\<dots> = butlast (take n (list_update zs y (zs ! (n - 1))))"
      by (simp only: take_update_swap)
    also have "\<dots> = take (n - 1) (list_update zs y (zs ! (n - 1)))"
      using nz by (simp add: butlast_take)
    also have "\<dots> = watchSet ?s'"
      using lz by (simp add: watchSet_def zip_update zs_def)
    finally have w: "watchSet ?s' = butlast (list_update (watchSet s) y (last (watchSet s)))"
      by simp
    have "wellFormed ?s'" using le by (simp add: wellFormed_def n_def)
    moreover have "sameWatch (fst (watchSet s ! y)) removeFD (watchEvents flags)"
      using y by (simp add: nth ev_def)
    moreover have "\<forall>i < y. \<not> sameWatch (fst (watchSet s ! i)) removeFD (watchEvents flags)"
      using y by (simp add: nth ev_def)
    ultimately show ?thesis using r w ex y(1)
      by (auto simp: n_def)
  qed
qed

subsection \<open>No duplicates, whatever the channel holds\<close>

lemma watchInv_chan [simp]: "watchInv (s\<lparr>chan := c\<rparr>) = watchInv s"
  by (simp add: watchInv_def)

lemma sameWatch_key:
  "watchKey x = (f, ucast (watchEvents fl)) \<Longrightarrow> sameWatch (fst x) f (watchEvents fl)"
  by (simp add: watchKey_def sameWatch_def scast_ucast_watchEvents)

lemma addWatch_inv:
  assumes "watchInv s" "addWatch temp temp2 newFD flags watch s = Some s'"
  shows "watchInv s'"
proof -
  from assms(1) have wf: "wellFormed s" and d: "distinct (map watchKey (watchSet s))"
    by (simp_all add: watchInv_def)
  from addWatch_spec [OF wf, of temp temp2 newFD flags watch] assms(2)
  have wf': "wellFormed s'"
    and c: "if \<exists>x \<in> set (watchSet s). sameWatch (fst x) newFD (watchEvents flags)
     then s' = logv ''DBusWatch duplicate add'' s
     else if pollMemberCount s = pollDataSize s \<and> (temp = None \<or> temp2 = None)
     then watchSet s' = watchSet s \<and> pollMemberCount s' = pollMemberCount s
        \<and> pollDataSize s' = pollDataSize s
        \<and> trace s' = trace s @ [LogV ''Bluetooth EventLoop poll struct growing'']
     else watchSet s' = watchSet s @ [(\<lparr>fd = newFD, events = ucast (watchEvents flags), revents = 0\<rparr>, watch)]
        \<and> pollMemberCount s' = Suc (pollMemberCount s)
        \<and> trace s' = trace s @ (if pollMemberCount s = pollDataSize s
                                  then [LogV ''Bluetooth EventLoop poll struct growing''] else [])"
    by auto
  have "distinct (map watchKey (watchSet s'))"
  proof (cases "\<exists>x \<in> set (watchSet s). sameWatch (fst x) newFD (watchEvents flags)")
    case True
    with c d show ?thesis by (simp add: logv_def)
  next
    case False
    have new: "(newFD, ucast (watchEvents flags)) \<notin> watchKey ` set (watchSet s)"
    proof
      assume "(newFD, ucast (watchEvents flags)) \<in> watchKey ` set (watchSet s)"
      then obtain x where "x \<in> set (watchSet s)"
        and "watchKey x = (newFD, ucast (watchEvents flags))" by auto
      then show False using False sameWatch_key by blast
    qed
    from False c have "watchSet s' = watchSet s \<or>
      watchSet s' = watchSet s @ [(\<lparr>fd = newFD, events = ucast (watchEvents flags), revents = 0\<rparr>, watch)]"
      by (auto split: if_splits)
    then show ?thesis using d new by (auto simp: watchKey_def)
  qed
  with wf' show ?thesis by (simp add: watchInv_def)
qed

lemma removeWatch_inv:
  assumes "watchInv s" "removeWatch removeFD flags s = Some s'"
  shows "watchInv s'"
proof -
  from assms(1) have wf: "wellFormed s" and d: "distinct (map watchKey (watchSet s))"
    by (simp_all add: watchInv_def)
  have len: "length (watchSet s) = pollMemberCount s"
    using wf by (rule wellFormedE)
  from removeWatch_spec [OF wf, of removeFD flags] assms(2)
  have wf': "wellFormed s'"
    and c: "(\<exists>y < pollMemberCount s.
               watchSet s' = butlast (list_update (watchSet s) y (last (watchSet s))))
            \<or> s' = logw ''WatchRemove given with unknown watch'' s"
    by (auto split: if_splits)
  from c have "distinct (map watchKey (watchSet s'))"
  proof
    assume "\<exists>y < pollMemberCount s.
               watchSet s' = butlast (list_update (watchSet s) y (last (watchSet s)))"
    then obtain y where "y < length (watchSet s)"
      and "watchSet s' = butlast (list_update (watchSet s) y (last (watchSet s)))"
      using len by auto
    then show ?thesis using d by (simp add: distinct_swap_with_last)
  next
    assume "s' = logw ''WatchRemove given with unknown watch'' s"
    then show ?thesis using d by (simp add: logw_def)
  qed
  with wf' show ?thesis by (simp add: watchInv_def)
qed

lemma read32_chan: "read32 s = Some (w, s1) \<Longrightarrow> \<exists>r. s1 = s\<lparr>chan := r\<rparr>"
  by (auto simp: read32_def split: option.splits)

lemma handleWatchAdd_inv:
  assumes "watchInv s" "handleWatchAdd temp temp2 s = Some s'"
  shows "watchInv s'"
proof -
  from assms(2) obtain newFD flags watch s1 s2 s3 where
    r: "read32 s = Some (newFD, s1)" "read32 s1 = Some (flags, s2)" "read32 s2 = Some (watch, s3)"
    and a: "addWatch temp temp2 newFD flags watch s3 = Some s'"
    by (auto simp: handleWatchAdd_def split: Option.bind_splits)
  from r assms(1) have "watchInv s3" by (auto dest!: read32_chan)
  then show ?thesis using a by (rule addWatch_inv)
qed

lemma handleWatchRemove_inv:
  assumes "watchInv s" "handleWatchRemove s = Some s'"
  shows "watchInv s'"
proof -
  from assms(2) obtain removeFD flags s1 s2 where
    r: "read32 s = Some (removeFD, s1)" "read32 s1 = Some (flags, s2)"
    and a: "removeWatch removeFD flags s2 = Some s'"
    by (auto simp: handleWatchRemove_def split: Option.bind_splits)
  from r assms(1) have "watchInv s2" by (auto dest!: read32_chan)
  then show ?thesis using a by (rule removeWatch_inv)
qed

lemma recvLoop_inv: "watchInv s \<Longrightarrow> recvLoop heap s = Some (b, s') \<Longrightarrow> watchInv s'"
proof (induction heap s rule: recvLoop.induct)
  case (1 heap s)
  show ?case
  proof (cases "chan s")
    case Nil
    with "1.prems" show ?thesis by (simp add: recvLoop.simps [of heap s])
  next
    case (Cons data rest)
    have inv: "watchInv (s\<lparr>chan := rest\<rparr>)" using "1.prems"(1) by simp
    consider (exit) "data = EVENT_LOOP_EXIT"
      | (add) "data \<noteq> EVENT_LOOP_EXIT" "data = EVENT_LOOP_ADD"
      | (remove) "data \<noteq> EVENT_LOOP_EXIT" "data \<noteq> EVENT_LOOP_ADD" "data = EVENT_LOOP_REMOVE"
      | (other) "data \<noteq> EVENT_LOOP_EXIT" "data \<noteq> EVENT_LOOP_ADD" "data \<noteq> EVENT_LOOP_REMOVE"
      by blast
    then show ?thesis
    proof cases
      case exit
      with Cons "1.prems" inv show ?thesis by (auto simp: recvLoop.simps [of heap s])
    next
      case add
      with Cons "1.prems"(2) obtain s1 where
        h: "handleWatchAdd (fst (mallocs heap)) (snd (mallocs heap)) (s\<lparr>chan := rest\<rparr>) = Some s1"
        and l: "recvLoop (tl heap) s1 = Some (b, s')"
        by (auto simp: recvLoop.simps [of heap s] split: option.splits)
      from inv h have "watchInv s1" by (rule handleWatchAdd_inv)
      with "1.IH"(1) [OF Cons add h] l show ?thesis by simp
    next
      case remove
      with Cons "1.prems"(2) obtain s1 where
        h: "handleWatchRemove (s\<lparr>chan := rest\<rparr>) = Some s1"
        and l: "recvLoop heap s1 = Some (b, s')"
        by (auto simp: recvLoop.simps [of heap s] split: option.splits)
      from inv h have "watchInv s1" by (rule handleWatchRemove_inv)
      with "1.IH"(2) [OF Cons remove h] l show ?thesis by simp
    next
      case other
      with Cons "1.prems"(2) have l: "recvLoop heap (s\<lparr>chan := rest\<rparr>) = Some (b, s')"
        by (simp add: recvLoop.simps [of heap s])
      with "1.IH"(3) [OF Cons other] inv show ?thesis by simp
    qed
  qed
qed

lemma startEventLoopNative_inv:
  assumes "startEventLoopNative e s0 = Some (True, s1)"
  shows "watchInv s1"
proof -
  from assms obtain k pd where
    "pollData s1 = Some pd" "watchData s1 = Some (replicate k 0)" "pollMemberCount s1 = 1"
    "pollDataSize s1 = k" "length pd = k" "0 < k"
    by (auto simp: startEventLoopNative_def Let_def effects_def startFailed_def
          split: if_splits option.splits)
  moreover from \<open>0 < k\<close> obtain k' where "k = Suc k'" by (auto dest: gr0_implies_Suc)
  ultimately show ?thesis
    by (cases pd) (auto simp: watchInv_def wellFormed_def watchSet_def)
qed

text \<open>On a sequence of control messages the loop comes to an end.\<close>

lemma recvLoop_returns:
  "wellFormed s \<Longrightarrow> chan s = encode ms \<Longrightarrow> \<exists>stop s'. recvLoop heap s = Some (stop, s')"
proof (induction ms arbitrary: s heap)
  case Nil
  then show ?case by (auto simp: encode_def recvLoop.simps [of heap s])
next
  case (Cons m ms)
  show ?case
  proof (cases m)
    case Exit
    with Cons.prems(2) show ?thesis
      by (auto simp: encode_def recvLoop.simps [of heap s])
  next
    case (AddWatch f flags watch)
    let ?s = "s\<lparr>chan := le32 f @ le32 flags @ le32 watch @ encode ms\<rparr>"
    from Cons.prems(2) have c: "chan s = EVENT_LOOP_ADD # le32 f @ le32 flags @ le32 watch @ encode ms"
      by (simp add: AddWatch encode_def)
    have "wellFormed (s\<lparr>chan := encode ms\<rparr>)" using Cons.prems(1) by simp
    from addWatch_spec [OF this, of "fst (mallocs heap)" "snd (mallocs heap)" f flags watch]
    obtain s1 where a: "addWatch (fst (mallocs heap)) (snd (mallocs heap)) f flags watch
                          (s\<lparr>chan := encode ms\<rparr>) = Some s1"
      and w: "wellFormed s1" and c1: "chan s1 = encode ms" by auto
    have "handleWatchAdd (fst (mallocs heap)) (snd (mallocs heap)) ?s = Some s1"
      using handleWatchAdd_decode [of ?s f flags watch "encode ms"] a by simp
    moreover from Cons.IH [OF w c1] obtain stop s' where "recvLoop (tl heap) s1 = Some (stop, s')"
      by blast
    ultimately show ?thesis using c
      by (simp add: recvLoop.simps [of heap s] EVENT_LOOP_ADD_def EVENT_LOOP_EXIT_def)
  next
    case (RemoveWatch f flags)
    let ?s = "s\<lparr>chan := le32 f @ le32 flags @ encode ms\<rparr>"
    from Cons.prems(2) have c: "chan s = EVENT_LOOP_REMOVE # le32 f @ le32 flags @ encode ms"
      by (simp add: RemoveWatch encode_def)
    have "wellFormed (s\<lparr>chan := encode ms\<rparr>)" using Cons.prems(1) by simp
    from removeWatch_spec [OF this, of f flags]
    obtain s1 where a: "removeWatch f flags (s\<lparr>chan := encode ms\<rparr>) = Some s1"
      and w: "wellFormed s1" and c1: "chan s1 = encode ms" by auto
    have "handleWatchRemove ?s = Some s1"
      using handleWatchRemove_decode [of ?s f flags "encode ms"] a by simp
    moreover from Cons.IH [OF w c1] obtain stop s' where "recvLoop heap s1 = Some (stop, s')"
      by blast
    ultimately show ?thesis using c
      by (simp add: recvLoop.simps [of heap s] EVENT_LOOP_ADD_def EVENT_LOOP_EXIT_def
            EVENT_LOOP_REMOVE_def)
  qed
qed

subsection \<open>The method ids after \<open>classInitNative\<close>\<close>

lemma classInitNative_assigns:
  "method_onPropertyChanged (classInitNative g ids)
     = g ''onPropertyChanged'' ''([Ljava/lang/String;)V''
   \<and> method_onDevicePropertyChanged (classInitNative g ids)
       = g ''onDevicePropertyChanged'' ''(Ljava/lang/String;[Ljava/lang/String;)V''
   \<and> method_onDeviceFound (classInitNative g ids)
       = g ''onDeviceFound'' ''(Ljava/lang/String;[Ljava/lang/String;)V''
   \<and> method_onDeviceDisappeared (classInitNative g ids)
       = g ''onDeviceDisappeared'' ''(Ljava/lang/String;)V''
   \<and> method_onDeviceCreated (classInitNative g ids) = g ''onDeviceCreated'' ''(Ljava/lang/String;)V''
   \<and> method_onDeviceRemoved (classInitNative g ids) = g ''onDeviceRemoved'' ''(Ljava/lang/String;)V''
   \<and> method_onCreatePairedDeviceResult (classInitNative g ids)
       = g ''onCreatePairedDeviceResult'' ''(Ljava/lang/String;I)V''
   \<and> method_onAgentAuthorize (classInitNative g ids)
       = g ''onAgentAuthorize'' ''(Ljava/lang/String;Ljava/lang/String;)Z''
   \<and> method_onAgentCancel (classInitNative g ids) = g ''onAgentCancel'' ''()V''
   \<and> method_onRequestPinCode (classInitNative g ids)
       = g ''onRequestPinCode'' ''(Ljava/lang/String;I)V''"
  by (simp add: classInitNative_def)

subsection \<open>Effects of a kind, in a longer list\<close>

lemma javaCalls_append: "javaCalls (xs @ ys) = javaCalls xs @ javaCalls ys"
  by (induction xs rule: javaCalls.induct) auto

lemma errorsLogged_append: "errorsLogged (xs @ ys) = errorsLogged xs @ errorsLogged ys"
  by (induction xs rule: errorsLogged.induct) auto

lemma threadsCreated_append: "threadsCreated (xs @ ys) = threadsCreated xs @ threadsCreated ys"
  by (induction xs rule: threadsCreated.induct) auto

lemma methodCalls_append: "methodCalls (xs @ ys) = methodCalls xs @ methodCalls ys"
  by (induction xs rule: methodCalls.induct) auto

lemma sent_append: "sent (xs @ ys) = sent xs @ sent ys"
  by (induction xs rule: sent.induct) auto

lemma freed_append: "freed (xs @ ys) = freed xs @ freed ys"
  by (induction xs rule: freed.induct) auto

section \<open>The claims\<close>

text \<open>
  C1. The Watch Set never holds a (descriptor, events) pair twice: the state that a
  successful \<open>startEventLoopNative\<close> leaves has the property, and every run of the
  worker's loop over the Control Channel, whatever bytes it holds and whatever
  \<open>malloc\<close> answers, keeps it; on a channel that holds a sequence of control
  messages the loop does come to an end, in a state with the property.
  \<open>handleWatchAdd\<close> on a pair that a live entry
  already has leaves the count, the size, both buffers and so the Watch Set as they are;
  after any add the Watch Set is the old one, or the old one with the one new entry
  at its end.
\<close>

theorem watch_set_never_holds_a_pair_twice:
  "(startEventLoopNative e s0 = Some (True, s1) \<longrightarrow> watchInv s1)
   \<and> (watchInv s \<and> recvLoop heap s = Some (stop, s') \<longrightarrow> watchInv s')
   \<and> (watchInv s \<and> chan s = encode msgs \<longrightarrow>
        (\<exists>stop s'. recvLoop heap s = Some (stop, s') \<and> watchInv s'))
   \<and> (wellFormed t \<and> chan t = le32 newFD @ le32 flags @ le32 watch @ rest \<longrightarrow>
        (\<exists>t'. handleWatchAdd temp temp2 t = Some t'
           \<and> (watchSet t' = watchSet t
                \<or> watchSet t' = watchSet t @
                     [(\<lparr>fd = newFD, events = ucast (watchEvents flags), revents = 0\<rparr>, watch)])
           \<and> ((newFD, ucast (watchEvents flags)) \<in> watchKey ` set (watchSet t) \<longrightarrow>
                 watchSet t' = watchSet t \<and> pollMemberCount t' = pollMemberCount t
                 \<and> pollDataSize t' = pollDataSize t \<and> pollData t' = pollData t
                 \<and> watchData t' = watchData t)))"
proof (intro conjI impI)
  assume "startEventLoopNative e s0 = Some (True, s1)"
  then show "watchInv s1" by (rule startEventLoopNative_inv)
next
  assume "watchInv s \<and> recvLoop heap s = Some (stop, s')"
  then show "watchInv s'" using recvLoop_inv by blast
next
  assume a: "watchInv s \<and> chan s = encode msgs"
  then have "wellFormed s" by (simp add: watchInv_def)
  with a obtain stop s' where "recvLoop heap s = Some (stop, s')"
    using recvLoop_returns by blast
  with a show "\<exists>stop s'. recvLoop heap s = Some (stop, s') \<and> watchInv s'"
    using recvLoop_inv by blast
next
  assume a: "wellFormed t \<and> chan t = le32 newFD @ le32 flags @ le32 watch @ rest"
  let ?t = "t\<lparr>chan := rest\<rparr>"
  let ?new = "(\<lparr>fd = newFD, events = ucast (watchEvents flags), revents = 0\<rparr>, watch)"
  have wf: "wellFormed ?t" using a by simp
  note sp = addWatch_spec [OF wf, of temp temp2 newFD flags watch]
  have dec: "handleWatchAdd temp temp2 t = addWatch temp temp2 newFD flags watch ?t"
    using a by (intro handleWatchAdd_decode) simp
  show "\<exists>t'. handleWatchAdd temp temp2 t = Some t'
           \<and> (watchSet t' = watchSet t \<or> watchSet t' = watchSet t @ [?new])
           \<and> ((newFD, ucast (watchEvents flags)) \<in> watchKey ` set (watchSet t) \<longrightarrow>
                 watchSet t' = watchSet t \<and> pollMemberCount t' = pollMemberCount t
                 \<and> pollDataSize t' = pollDataSize t \<and> pollData t' = pollData t
                 \<and> watchData t' = watchData t)"
  proof (cases "\<exists>x \<in> set (watchSet t). sameWatch (fst x) newFD (watchEvents flags)")
    case True
    with sp have "addWatch temp temp2 newFD flags watch ?t = Some (logv ''DBusWatch duplicate add'' ?t)"
      by auto
    then show ?thesis using dec by (simp add: logv_def)
  next
    case False
    then have new: "(newFD, ucast (watchEvents flags)) \<notin> watchKey ` set (watchSet t)"
      using sameWatch_key by fastforce
    from False sp obtain t' where "addWatch temp temp2 newFD flags watch ?t = Some t'"
      "watchSet t' = watchSet t \<or> watchSet t' = watchSet t @ [?new]"
      by (auto split: if_splits)
    then show ?thesis using dec new by auto
  qed
qed

theorem watch_set_never_holds_a_pair_twice_witness:
  "(\<exists>s1. startEventLoopNative startOK idle = Some (True, s1) \<and> watchInv s1)
   \<and> watchInv (running2\<lparr>chan := encode threeMessages\<rparr>)
   \<and> (\<exists>s'. recvLoop [(Some \<lparr>fd = 0, events = 0, revents = 0\<rparr>, Some 0)]
              (running2\<lparr>chan := encode threeMessages\<rparr>) = Some (False, s')
         \<and> watchInv s' \<and> map watchKey (watchSet s') = [(10, 1), (13, 1)])
   \<and> wellFormed (running2\<lparr>chan := le32 12 @ le32 2 @ le32 700 @ []\<rparr>)
   \<and> chan (running2\<lparr>chan := le32 12 @ le32 2 @ le32 700 @ []\<rparr>) = le32 12 @ le32 2 @ le32 700 @ []
   \<and> (12, ucast (watchEvents 2)) \<in> watchKey ` set (watchSet (running2\<lparr>chan := le32 12 @ le32 2 @ le32 700 @ []\<rparr>))
   \<and> (\<exists>t'. handleWatchAdd None None (running2\<lparr>chan := le32 12 @ le32 2 @ le32 700 @ []\<rparr>) = Some t'
         \<and> watchSet t' = watchSet running2 \<and> pollMemberCount t' = 2)"
proof -
  let ?r = "running2\<lparr>pollData := Some [\<lparr>fd = 10, events = 1, revents = 0\<rparr>,
                 \<lparr>fd = 13, events = 1, revents = 0\<rparr>, \<lparr>fd = 13, events = 1, revents = 0\<rparr>],
               pollMemberCount := 2, pollDataSize := 3, watchData := Some [0, 600, 600],
               trace := [LogV ''Bluetooth EventLoop poll struct growing'',
                         LogV ''DBusWatch duplicate add'']\<rparr>"
  let ?t = "running2\<lparr>chan := le32 12 @ le32 2 @ le32 700 @ []\<rparr>"
  obtain s1 where st: "startEventLoopNative startOK idle = Some (True, s1)"
    by (simp add: startEventLoopNative_def startOK_def idle_def Let_def effects_def)
  have i: "watchInv (running2\<lparr>chan := encode threeMessages\<rparr>)"
    by (simp add: running2_def watchInv_def wellFormed_def watchSet_def watchKey_def)
  have l: "recvLoop [(Some \<lparr>fd = 0, events = 0, revents = 0\<rparr>, Some 0)]
              (running2\<lparr>chan := encode threeMessages\<rparr>) = Some (False, ?r)"
    by code_simp
  have k: "map watchKey (watchSet ?r) = [(10, 1), (13, 1)]"
    by (simp add: running2_def watchSet_def watchKey_def)
  have w: "wellFormed ?t" by (simp add: running2_def wellFormed_def)
  have c: "chan ?t = le32 12 @ le32 2 @ le32 700 @ []" by simp
  have ev: "watchEvents 2 = 4"
    by (simp add: watchEvents_def POLLIN_def POLLOUT_def DBUS_WATCH_READABLE_def
          DBUS_WATCH_WRITABLE_def)
  have m: "(12, ucast (watchEvents 2)) \<in> watchKey ` set (watchSet ?t)"
    by (simp add: ev running2_def watchSet_def watchKey_def)
  have n: "pollMemberCount running2 = 2" by (simp add: running2_def)
  note inst = watch_set_never_holds_a_pair_twice
    [where e = startOK and ?s0.0 = idle and ?s1.0 = s1
       and s = "running2\<lparr>chan := encode threeMessages\<rparr>" and msgs = threeMessages
       and heap = "[(Some \<lparr>fd = 0, events = 0, revents = 0\<rparr>, Some 0)]"
       and stop = False and s' = ?r
       and t = ?t and newFD = 12 and flags = 2 and watch = 700 and rest = "[]"
       and temp = None and ?temp2.0 = None]
  from inst st have 1: "watchInv s1" by blast
  from inst i l have 2: "watchInv ?r" by blast
  from inst w c m obtain t' where "handleWatchAdd None None ?t = Some t'"
    "watchSet t' = watchSet ?t" "pollMemberCount t' = pollMemberCount ?t"
    by blast
  then have 3: "\<exists>t'. handleWatchAdd None None ?t = Some t'
                  \<and> watchSet t' = watchSet running2 \<and> pollMemberCount t' = 2"
    using n by simp
  from st 1 have A: "\<exists>s1. startEventLoopNative startOK idle = Some (True, s1) \<and> watchInv s1"
    by blast
  have B: "\<exists>s'. recvLoop [(Some \<lparr>fd = 0, events = 0, revents = 0\<rparr>, Some 0)]
              (running2\<lparr>chan := encode threeMessages\<rparr>) = Some (False, s')
         \<and> watchInv s' \<and> map watchKey (watchSet s') = [(10, 1), (13, 1)]"
    using l 2 k by (intro exI [of _ ?r] conjI)
  from A i B w c m 3 show ?thesis by (intro conjI)
qed

text \<open>
  C6. \<open>handleWatchRemove\<close>, reading a (descriptor, flags) pair from the Control
  Channel of a well-formed loop: when no live entry has the pair, the member count, the
  Watch Set and both buffers stay as they are, one warning is logged, no error is
  logged, and the handler returns; when some live entry has it, the first such entry
  \<open>y\<close> is overwritten with the last live entry and the count drops by one, so the
  Watch Set loses exactly the entry \<open>y\<close>.
\<close>

theorem handleWatchRemove_unknown_or_swap:
  assumes "wellFormed s" and "chan s = le32 removeFD @ le32 flags @ rest"
  shows "\<exists>s'. handleWatchRemove s = Some s' \<and> chan s' = rest \<and>
    (if \<exists>x \<in> set (watchSet s). sameWatch (fst x) removeFD (watchEvents flags)
     then (\<exists>y < pollMemberCount s.
             sameWatch (fst (watchSet s ! y)) removeFD (watchEvents flags)
           \<and> (\<forall>i < y. \<not> sameWatch (fst (watchSet s ! i)) removeFD (watchEvents flags))
           \<and> watchSet s' = butlast (list_update (watchSet s) y (last (watchSet s)))
           \<and> add_mset (watchSet s ! y) (mset (watchSet s')) = mset (watchSet s))
        \<and> pollMemberCount s' = pollMemberCount s - 1
        \<and> trace s' = trace s
     else pollMemberCount s' = pollMemberCount s \<and> watchSet s' = watchSet s
        \<and> pollData s' = pollData s \<and> watchData s' = watchData s
        \<and> trace s' = trace s @ [LogW ''WatchRemove given with unknown watch'']
        \<and> errorsLogged (trace s') = errorsLogged (trace s))"
proof -
  let ?s = "s\<lparr>chan := rest\<rparr>"
  have wf: "wellFormed ?s" using assms(1) by simp
  have len: "length (watchSet s) = pollMemberCount s" using assms(1) by (rule wellFormedE)
  note sp = removeWatch_spec [OF wf, of removeFD flags]
  note dec = handleWatchRemove_decode [OF assms(2)]
  show ?thesis
  proof (cases "\<exists>x \<in> set (watchSet s). sameWatch (fst x) removeFD (watchEvents flags)")
    case True
    with sp obtain s' y where r: "removeWatch removeFD flags ?s = Some s'" "chan s' = rest"
      and y: "y < pollMemberCount s"
      "sameWatch (fst (watchSet s ! y)) removeFD (watchEvents flags)"
      "\<forall>i < y. \<not> sameWatch (fst (watchSet s ! i)) removeFD (watchEvents flags)"
      "watchSet s' = butlast (list_update (watchSet s) y (last (watchSet s)))"
      and rest: "pollMemberCount s' = pollMemberCount s - 1" "trace s' = trace s"
      by auto
    from y(1) len have "y < length (watchSet s)" by simp
    from mset_swap_with_last [OF this] y(4)
    have "add_mset (watchSet s ! y) (mset (watchSet s')) = mset (watchSet s)" by simp
    with True dec r y rest show ?thesis by auto
  next
    case False
    with sp have "removeWatch removeFD flags ?s
                    = Some (logw ''WatchRemove given with unknown watch'' ?s)"
      by auto
    with False dec show ?thesis by (simp add: logw_def errorsLogged_append)
  qed
qed

theorem handleWatchRemove_unknown_or_swap_witness:
  "wellFormed (running2\<lparr>chan := le32 10 @ le32 1 @ []\<rparr>)
   \<and> chan (running2\<lparr>chan := le32 10 @ le32 1 @ []\<rparr>) = le32 10 @ le32 1 @ []
   \<and> (\<exists>s'. handleWatchRemove (running2\<lparr>chan := le32 10 @ le32 1 @ []\<rparr>) = Some s'
         \<and> pollMemberCount s' = 1
         \<and> watchSet s' = [(\<lparr>fd = 12, events = 4, revents = 0\<rparr>, 500)])
   \<and> wellFormed (running2\<lparr>chan := le32 77 @ le32 1 @ []\<rparr>)
   \<and> chan (running2\<lparr>chan := le32 77 @ le32 1 @ []\<rparr>) = le32 77 @ le32 1 @ []
   \<and> (\<exists>s'. handleWatchRemove (running2\<lparr>chan := le32 77 @ le32 1 @ []\<rparr>) = Some s'
         \<and> pollMemberCount s' = 2 \<and> watchSet s' = watchSet running2
         \<and> warnings (trace s') = [''WatchRemove given with unknown watch''])"
proof -
  have w1: "wellFormed (running2\<lparr>chan := le32 10 @ le32 1 @ []\<rparr>)"
    and w2: "wellFormed (running2\<lparr>chan := le32 77 @ le32 1 @ []\<rparr>)"
    by (simp_all add: running2_def wellFormed_def)
  have c1: "chan (running2\<lparr>chan := le32 10 @ le32 1 @ []\<rparr>) = le32 10 @ le32 1 @ []"
    and c2: "chan (running2\<lparr>chan := le32 77 @ le32 1 @ []\<rparr>) = le32 77 @ le32 1 @ []"
    by simp_all
  have ws: "watchSet running2
      = [(\<lparr>fd = 10, events = 1, revents = 0\<rparr>, 0), (\<lparr>fd = 12, events = 4, revents = 0\<rparr>, 500)]"
    by (simp add: running2_def watchSet_def)
  have n: "pollMemberCount running2 = 2" "trace running2 = []" by (simp_all add: running2_def)
  have ev: "watchEvents 1 = 1" by (simp add: watchEvents_def POLLIN_def POLLOUT_def
      DBUS_WATCH_READABLE_def DBUS_WATCH_WRITABLE_def)
  from handleWatchRemove_unknown_or_swap [OF w1 c1] obtain s' where
    "handleWatchRemove (running2\<lparr>chan := le32 10 @ le32 1 @ []\<rparr>) = Some s'"
    "pollMemberCount s' = 1" "watchSet s' = [(\<lparr>fd = 12, events = 4, revents = 0\<rparr>, 500)]"
    by (auto simp: ws n ev sameWatch_def less_Suc_eq numeral_2_eq_2)
  moreover
  from handleWatchRemove_unknown_or_swap [OF w2 c2] obtain s'' where
    "handleWatchRemove (running2\<lparr>chan := le32 77 @ le32 1 @ []\<rparr>) = Some s''"
    "pollMemberCount s'' = 2" "watchSet s'' = watchSet running2"
    "warnings (trace s'') = [''WatchRemove given with unknown watch'']"
    by (auto simp: ws n ev sameWatch_def)
  ultimately show ?thesis using w1 w2 c1 c2 by blast
qed

text \<open>
  C7. When \<open>handleWatchAdd\<close> has to grow the buffers (the pair is new and the count
  has reached the size) and either \<open>malloc\<close> returns \<open>NULL\<close>, the handler
  returns, calls nothing in Java, and leaves the member count, the size and the live
  entries (hence the multiset of their (descriptor, events) pairs) as they were, in a
  state that is still well-formed.
\<close>

theorem handleWatchAdd_allocation_failure:
  assumes "wellFormed s" and "chan s = le32 newFD @ le32 flags @ le32 watch @ rest"
    and "pollMemberCount s = pollDataSize s"
    and "\<forall>x \<in> set (watchSet s). \<not> sameWatch (fst x) newFD (watchEvents flags)"
    and "temp = None \<or> temp2 = None"
  shows "\<exists>s'. handleWatchAdd temp temp2 s = Some s' \<and> wellFormed s'
    \<and> pollMemberCount s' = pollMemberCount s \<and> pollDataSize s' = pollDataSize s
    \<and> watchSet s' = watchSet s
    \<and> mset (map watchKey (watchSet s')) = mset (map watchKey (watchSet s))
    \<and> javaCalls (trace s') = javaCalls (trace s)"
proof -
  let ?s = "s\<lparr>chan := rest\<rparr>"
  have wf: "wellFormed ?s" using assms(1) by simp
  from addWatch_spec [OF wf, of temp temp2 newFD flags watch] assms(3-5)
  obtain s' where "addWatch temp temp2 newFD flags watch ?s = Some s'" "wellFormed s'"
    "watchSet s' = watchSet s" "pollMemberCount s' = pollMemberCount s"
    "pollDataSize s' = pollDataSize s"
    "trace s' = trace s @ [LogV ''Bluetooth EventLoop poll struct growing'']"
    by auto
  then show ?thesis
    using handleWatchAdd_decode [OF assms(2), of temp temp2]
    by (simp add: javaCalls_append)
qed

theorem handleWatchAdd_allocation_failure_witness:
  "wellFormed (running2\<lparr>chan := le32 13 @ le32 1 @ le32 600 @ []\<rparr>)
   \<and> chan (running2\<lparr>chan := le32 13 @ le32 1 @ le32 600 @ []\<rparr>) = le32 13 @ le32 1 @ le32 600 @ []
   \<and> pollMemberCount (running2\<lparr>chan := le32 13 @ le32 1 @ le32 600 @ []\<rparr>)
       = pollDataSize (running2\<lparr>chan := le32 13 @ le32 1 @ le32 600 @ []\<rparr>)
   \<and> \<not> (\<exists>x \<in> set (watchSet (running2\<lparr>chan := le32 13 @ le32 1 @ le32 600 @ []\<rparr>)).
           sameWatch (fst x) 13 (watchEvents 1))
   \<and> (\<exists>s'. handleWatchAdd None (Some 0) (running2\<lparr>chan := le32 13 @ le32 1 @ le32 600 @ []\<rparr>) = Some s'
         \<and> pollMemberCount s' = 2 \<and> watchSet s' = watchSet running2)
   \<and> (\<exists>s'. handleWatchAdd (Some \<lparr>fd = 0, events = 0, revents = 0\<rparr>) None
              (running2\<lparr>chan := le32 13 @ le32 1 @ le32 600 @ []\<rparr>) = Some s'
         \<and> pollMemberCount s' = 2 \<and> watchSet s' = watchSet running2)"
proof -
  let ?s = "running2\<lparr>chan := le32 13 @ le32 1 @ le32 600 @ []\<rparr>"
  have w: "wellFormed ?s" by (simp add: running2_def wellFormed_def)
  have c: "chan ?s = le32 13 @ le32 1 @ le32 600 @ []" by simp
  have n: "pollMemberCount ?s = pollDataSize ?s" by (simp add: running2_def)
  have d: "\<forall>x \<in> set (watchSet ?s). \<not> sameWatch (fst x) 13 (watchEvents 1)"
    by (simp add: running2_def watchSet_def sameWatch_def)
  have k: "pollMemberCount running2 = 2" by (simp add: running2_def)
  have "\<exists>s'. handleWatchAdd None (Some 0) ?s = Some s'
         \<and> pollMemberCount s' = 2 \<and> watchSet s' = watchSet running2"
    using handleWatchAdd_allocation_failure [OF w c n d, of None "Some 0"] k by auto
  moreover have "\<exists>s'. handleWatchAdd (Some \<lparr>fd = 0, events = 0, revents = 0\<rparr>) None ?s = Some s'
         \<and> pollMemberCount s' = 2 \<and> watchSet s' = watchSet running2"
    using handleWatchAdd_allocation_failure
            [OF w c n d, of "Some \<lparr>fd = 0, events = 0, revents = 0\<rparr>" None] k
    by auto
  moreover have "\<not> (\<exists>x \<in> set (watchSet ?s). sameWatch (fst x) 13 (watchEvents 1))"
    using d by blast
  ultimately show ?thesis using w c n by (intro conjI)
qed

text \<open>
  C5. \<open>startEventLoopNative\<close> on a loop that is running (\<open>pollData\<close> is set):
  it returns \<open>JNI_FALSE\<close>, logs one warning between taking and releasing the
  mutex, and changes nothing else: the buffers, the counters, the control descriptors,
  the channel and the thread are as before, and no thread is created. A start that
  succeeds began idle and ends running, with one thread created, so a second start after
  it is rejected in this way and the two calls together create one thread.
\<close>

theorem start_twice_is_rejected:
  "(pollData s \<noteq> None \<longrightarrow>
      startEventLoopNative e s =
        Some (False, s\<lparr>trace := trace s @ [MutexLock,
                LogW ''trying to start EventLoop a second time!'', MutexUnlock]\<rparr>))
   \<and> (startEventLoopNative e s = Some (True, s') \<longrightarrow>
        pollData s = None \<and> pollData s' \<noteq> None
        \<and> threadsCreated (trace s') = threadsCreated (trace s) @ [pthread_create e]
        \<and> startEventLoopNative e' s' =
            Some (False, s'\<lparr>trace := trace s' @ [MutexLock,
                    LogW ''trying to start EventLoop a second time!'', MutexUnlock]\<rparr>)
        \<and> threadsCreated (trace s' @ [MutexLock,
                    LogW ''trying to start EventLoop a second time!'', MutexUnlock])
            = threadsCreated (trace s) @ [pthread_create e])"
proof -
  have again: "startEventLoopNative e s =
        Some (False, s\<lparr>trace := trace s @ [MutexLock,
                LogW ''trying to start EventLoop a second time!'', MutexUnlock]\<rparr>)"
    if "pollData s \<noteq> None" for e s
    using that by (simp add: startEventLoopNative_def Let_def effects_def)
  have first: "pollData s = None \<and> pollData s' \<noteq> None
        \<and> threadsCreated (trace s') = threadsCreated (trace s) @ [pthread_create e]"
    if "startEventLoopNative e s = Some (True, s')"
    using that
    by (auto simp: startEventLoopNative_def Let_def effects_def startFailed_def
          threadsCreated_append split: if_splits option.splits)
  show ?thesis
    using again [of s e] first again [of s' e']
    by (auto simp: threadsCreated_append)
qed

theorem start_twice_is_rejected_witness:
  "pollData running2 \<noteq> None
   \<and> startEventLoopNative startOK running2 =
        Some (False, running2\<lparr>trace := [MutexLock,
                LogW ''trying to start EventLoop a second time!'', MutexUnlock]\<rparr>)
   \<and> (\<exists>s'. startEventLoopNative startOK idle = Some (True, s') \<and> pollData s' \<noteq> None
         \<and> threadsCreated (trace s') = [1]
         \<and> (\<exists>s''. startEventLoopNative startOK s' = Some (False, s'')
               \<and> pollData s'' = pollData s' \<and> threadsCreated (trace s'') = [1]))"
proof -
  have r: "pollData running2 \<noteq> None" "trace running2 = []" by (simp_all add: running2_def)
  obtain s' where st: "startEventLoopNative startOK idle = Some (True, s')"
    by (simp add: startEventLoopNative_def startOK_def idle_def Let_def effects_def)
  have i: "threadsCreated (trace idle) = []" "pthread_create startOK = 1"
    by (simp_all add: idle_def startOK_def)
  from start_twice_is_rejected [of running2 startOK] r
  have 1: "startEventLoopNative startOK running2 =
        Some (False, running2\<lparr>trace := [MutexLock,
                LogW ''trying to start EventLoop a second time!'', MutexUnlock]\<rparr>)"
    by simp
  from start_twice_is_rejected [of idle startOK s' startOK] st i
  have 2: "pollData s' \<noteq> None" "threadsCreated (trace s') = [1]"
    "\<exists>s''. startEventLoopNative startOK s' = Some (False, s'')
               \<and> pollData s'' = pollData s' \<and> threadsCreated (trace s'') = [1]"
    by simp_all
  from st 2 have "\<exists>s'. startEventLoopNative startOK idle = Some (True, s') \<and> pollData s' \<noteq> None
         \<and> threadsCreated (trace s') = [1]
         \<and> (\<exists>s''. startEventLoopNative startOK s' = Some (False, s'')
               \<and> pollData s'' = pollData s' \<and> threadsCreated (trace s'') = [1])"
    by blast
  with r(1) 1 show ?thesis by (intro conjI)
qed

text \<open>
  C8. The add hook returns true; on an enabled watch it appends to the Control Channel
  the tag \<open>EVENT_LOOP_ADD\<close>, the descriptor, the flags and the watch's address, in
  this order, and on a disabled watch it writes nothing. The remove hook always appends
  the tag \<open>EVENT_LOOP_REMOVE\<close>, the descriptor and the flags. The toggle hook does
  to the channel what the add hook does when the watch is enabled and what the remove
  hook does when it is not.
\<close>

theorem watch_hooks_route:
  "dbusAddWatch watch s =
     (True, if watch_enabled watch
            then s\<lparr>chan := chan s @ EVENT_LOOP_ADD # le32 (watch_fd watch)
                       @ le32 (watch_flags watch) @ le32 (watch_addr watch)\<rparr>
            else s)
   \<and> dbusRemoveWatch watch s =
       s\<lparr>chan := chan s @ EVENT_LOOP_REMOVE # le32 (watch_fd watch) @ le32 (watch_flags watch)\<rparr>
   \<and> dbusToggleWatch watch s =
       (if watch_enabled watch
        then s\<lparr>chan := chan s @ EVENT_LOOP_ADD # le32 (watch_fd watch)
                   @ le32 (watch_flags watch) @ le32 (watch_addr watch)\<rparr>
        else s\<lparr>chan := chan s @ EVENT_LOOP_REMOVE # le32 (watch_fd watch)
                   @ le32 (watch_flags watch)\<rparr>)
   \<and> dbusToggleWatch watch s =
       (if watch_enabled watch then snd (dbusAddWatch watch s) else dbusRemoveWatch watch s)"
  by (simp add: dbusAddWatch_def dbusRemoveWatch_def dbusToggleWatch_def write32_def write8_def)

theorem watch_hooks_route_witness:
  "dbusAddWatch \<lparr>watch_addr = 600, watch_enabled = True, watch_fd = 13, watch_flags = 1\<rparr> running2
     = (True, running2\<lparr>chan := [2, 13, 0, 0, 0, 1, 0, 0, 0, 88, 2, 0, 0]\<rparr>)
   \<and> dbusAddWatch \<lparr>watch_addr = 600, watch_enabled = False, watch_fd = 13, watch_flags = 1\<rparr> running2
     = (True, running2)
   \<and> dbusRemoveWatch \<lparr>watch_addr = 600, watch_enabled = True, watch_fd = 13, watch_flags = 1\<rparr> running2
     = running2\<lparr>chan := [3, 13, 0, 0, 0, 1, 0, 0, 0]\<rparr>
   \<and> dbusToggleWatch \<lparr>watch_addr = 600, watch_enabled = True, watch_fd = 13, watch_flags = 1\<rparr> running2
     = running2\<lparr>chan := [2, 13, 0, 0, 0, 1, 0, 0, 0, 88, 2, 0, 0]\<rparr>
   \<and> dbusToggleWatch \<lparr>watch_addr = 600, watch_enabled = False, watch_fd = 13, watch_flags = 1\<rparr> running2
     = running2\<lparr>chan := [3, 13, 0, 0, 0, 1, 0, 0, 0]\<rparr>"
  using watch_hooks_route
          [of "\<lparr>watch_addr = 600, watch_enabled = True, watch_fd = 13, watch_flags = 1\<rparr>" running2]
        watch_hooks_route
          [of "\<lparr>watch_addr = 600, watch_enabled = False, watch_fd = 13, watch_flags = 1\<rparr>" running2]
  by (simp add: le32_def EVENT_LOOP_ADD_def EVENT_LOOP_REMOVE_def running2_def)

text \<open>
  C2. \<open>onCreatePairedDeviceResult\<close> calls \<open>onCreatePairedDeviceResult\<close> in Java
  once with \<open>BOND_RESULT_SUCCESS\<close> for a message that is no error, and for an
  error with the code of its name: \<open>AuthenticationFailed\<close>,
  \<open>AuthenticationRejected\<close>, \<open>AuthenticationCanceled\<close>,
  \<open>ConnectionAttemptFailed\<close> (remote device down), \<open>AlreadyExists\<close>
  (success), \<open>InProgress\<close> with the text "Discover in progress"; with
  \<open>BOND_RESULT_ERROR\<close> for every other error; and not at all for
  \<open>InProgress\<close> with the text "Bonding in progress". In every case \<open>user\<close> is
  freed once, as the last thing done.
\<close>

theorem onCreatePairedDeviceResult_table:
  "(dbus_set_error_from_message msg = None \<longrightarrow>
      javaCalls (onCreatePairedDeviceResult ifc msg user address nd)
        = [onCreatePairedDeviceResultJ address BOND_RESULT_SUCCESS])
   \<and> javaCalls (onCreatePairedDeviceResult ifc
         (Error n (ifc @ ''.Error.AuthenticationFailed'') text) user address nd)
       = [onCreatePairedDeviceResultJ address BOND_RESULT_AUTH_FAILED]
   \<and> javaCalls (onCreatePairedDeviceResult ifc
         (Error n (ifc @ ''.Error.AuthenticationRejected'') text) user address nd)
       = [onCreatePairedDeviceResultJ address BOND_RESULT_AUTH_REJECTED]
   \<and> javaCalls (onCreatePairedDeviceResult ifc
         (Error n (ifc @ ''.Error.AuthenticationCanceled'') text) user address nd)
       = [onCreatePairedDeviceResultJ address BOND_RESULT_AUTH_CANCELED]
   \<and> javaCalls (onCreatePairedDeviceResult ifc
         (Error n (ifc @ ''.Error.ConnectionAttemptFailed'') text) user address nd)
       = [onCreatePairedDeviceResultJ address BOND_RESULT_REMOTE_DEVICE_DOWN]
   \<and> javaCalls (onCreatePairedDeviceResult ifc
         (Error n (ifc @ ''.Error.AlreadyExists'') text) user address nd)
       = [onCreatePairedDeviceResultJ address BOND_RESULT_SUCCESS]
   \<and> javaCalls (onCreatePairedDeviceResult ifc
         (Error n (ifc @ ''.Error.InProgress'') ''Discover in progress'') user address nd)
       = [onCreatePairedDeviceResultJ address BOND_RESULT_DISCOVERY_IN_PROGRESS]
   \<and> javaCalls (onCreatePairedDeviceResult ifc
         (Error n (ifc @ ''.Error.InProgress'') ''Bonding in progress'') user address nd)
       = []
   \<and> (name \<noteq> ifc @ ''.Error.AuthenticationFailed''
        \<and> name \<noteq> ifc @ ''.Error.AuthenticationRejected''
        \<and> name \<noteq> ifc @ ''.Error.AuthenticationCanceled''
        \<and> name \<noteq> ifc @ ''.Error.ConnectionAttemptFailed''
        \<and> name \<noteq> ifc @ ''.Error.AlreadyExists''
        \<and> (name = ifc @ ''.Error.InProgress'' \<longrightarrow>
               text \<noteq> ''Bonding in progress'' \<and> text \<noteq> ''Discover in progress'') \<longrightarrow>
      javaCalls (onCreatePairedDeviceResult ifc (Error n name text) user address nd)
        = [onCreatePairedDeviceResultJ address BOND_RESULT_ERROR])
   \<and> freed (onCreatePairedDeviceResult ifc msg user address nd) = [user]
   \<and> last (onCreatePairedDeviceResult ifc msg user address nd) = Free user"
  by (auto simp: onCreatePairedDeviceResult_def bondResult_def javaCalls_append freed_append
        BOND_RESULT_ERROR_def BOND_RESULT_SUCCESS_def BOND_RESULT_AUTH_FAILED_def
        BOND_RESULT_AUTH_REJECTED_def BOND_RESULT_AUTH_CANCELED_def
        BOND_RESULT_REMOTE_DEVICE_DOWN_def BOND_RESULT_DISCOVERY_IN_PROGRESS_def
        split: option.splits)

theorem onCreatePairedDeviceResult_table_witness:
  "dbus_set_error_from_message (MethodReturn 5 []) = None
   \<and> javaCalls (onCreatePairedDeviceResult ''org.bluez'' (MethodReturn 5 []) 4096
          ''00:11:22:33:44:55'' running2)
       = [onCreatePairedDeviceResultJ ''00:11:22:33:44:55'' 0]
   \<and> javaCalls (onCreatePairedDeviceResult ''org.bluez''
          (Error 5 ''org.bluez.Error.AuthenticationRejected'' ''Rejected'') 4096
          ''00:11:22:33:44:55'' running2)
       = [onCreatePairedDeviceResultJ ''00:11:22:33:44:55'' 2]
   \<and> javaCalls (onCreatePairedDeviceResult ''org.bluez''
          (Error 5 ''org.bluez.Error.InProgress'' ''Bonding in progress'') 4096
          ''00:11:22:33:44:55'' running2)
       = []
   \<and> javaCalls (onCreatePairedDeviceResult ''org.bluez''
          (Error 5 ''org.bluez.Error.InProgress'' ''Something in progress'') 4096
          ''00:11:22:33:44:55'' running2)
       = [onCreatePairedDeviceResultJ ''00:11:22:33:44:55'' (- 1000)]
   \<and> javaCalls (onCreatePairedDeviceResult ''org.bluez''
          (Error 5 ''org.bluez.Error.Failed'' ''Bonding in progress'') 4096
          ''00:11:22:33:44:55'' running2)
       = [onCreatePairedDeviceResultJ ''00:11:22:33:44:55'' (- 1000)]
   \<and> freed (onCreatePairedDeviceResult ''org.bluez''
          (Error 5 ''org.bluez.Error.InProgress'' ''Bonding in progress'') 4096
          ''00:11:22:33:44:55'' running2)
       = [4096]"
  using onCreatePairedDeviceResult_table
          [of "MethodReturn 5 []" "''org.bluez''" 4096 "''00:11:22:33:44:55''" running2 5
              "''Rejected''" "''org.bluez.Error.InProgress''"]
        onCreatePairedDeviceResult_table
          [of "Error 5 ''org.bluez.Error.InProgress'' ''Bonding in progress''" "''org.bluez''"
              4096 "''00:11:22:33:44:55''" running2 5 "''Something in progress''"
              "''org.bluez.Error.InProgress''"]
        onCreatePairedDeviceResult_table
          [of "Error 5 ''org.bluez.Error.InProgress'' ''Bonding in progress''" "''org.bluez''"
              4096 "''00:11:22:33:44:55''" running2 5 "''Bonding in progress''"
              "''org.bluez.Error.Failed''"]
  by (simp add: BOND_RESULT_ERROR_def BOND_RESULT_SUCCESS_def BOND_RESULT_AUTH_REJECTED_def)

text \<open>
  C3 says that \<open>onGetDeviceServiceChannelResult\<close> calls the application back exactly
  once, with the channel of the reply or with \<open>-2\<close>, and then frees \<open>user\<close>.
  The code does so only if \<open>method_onGetDeviceServiceChannelResult\<close> holds a method
  id: then one call is made through it, with the integer of a reply that is no error
  and carries a 32-bit integer first, with \<open>-2\<close> otherwise, and \<open>user\<close> is freed
  right after it, once.
\<close>

lemma onGetDeviceServiceChannelResult_with_method_id:
  assumes "method_onGetDeviceServiceChannelResult ids = Some m"
  shows "(dbus_set_error_from_message msg = None \<and> dbus_message_args msg = [ArgInt32 channel] \<longrightarrow>
      methodCalls (onGetDeviceServiceChannelResult ids msg user address nd)
        = [(m, address, sint channel)])
   \<and> methodCalls (onGetDeviceServiceChannelResult ids (Error n name text) user address nd)
       = [(m, address, - 2)]
   \<and> (get_args_INT32 (dbus_message_args msg) = None \<longrightarrow>
        methodCalls (onGetDeviceServiceChannelResult ids msg user address nd)
          = [(m, address, - 2)])
   \<and> length (methodCalls (onGetDeviceServiceChannelResult ids msg user address nd)) = 1
   \<and> freed (onGetDeviceServiceChannelResult ids msg user address nd) = [user]
   \<and> (\<exists>before i. onGetDeviceServiceChannelResult ids msg user address nd
          = before @ [CallVoidMethodID (me nd) (Some m) address i, Free user])"
  using assms
  by (auto simp: onGetDeviceServiceChannelResult_def methodCalls_append freed_append Let_def
        split: option.splits)

text \<open>
  C3, on the code. \<open>classInitNative\<close> assigns ten method ids and not
  \<open>method_onGetDeviceServiceChannelResult\<close>, which so keeps the value it had; no other
  code assigns it, so it is \<open>NULL\<close> as at load. Whatever the message,
  \<open>onGetDeviceServiceChannelResult\<close> then ends in a \<open>CallVoidMethod\<close> with a
  \<open>NULL\<close> method id: no Java method is called, the application callback among
  them, where C3 has it called exactly once. The id of the sibling
  \<open>onCreatePairedDeviceResult\<close> is assigned.
\<close>

theorem onGetDeviceServiceChannelResult_calls_nothing:
  "method_onGetDeviceServiceChannelResult (classInitNative GetMethodID ids)
     = method_onGetDeviceServiceChannelResult ids
   \<and> method_onGetDeviceServiceChannelResult (classInitNative GetMethodID staticsAtLoad) = None
   \<and> method_onCreatePairedDeviceResult (classInitNative GetMethodID ids)
       = GetMethodID ''onCreatePairedDeviceResult'' ''(Ljava/lang/String;I)V''
   \<and> methodCalls (onGetDeviceServiceChannelResult (classInitNative GetMethodID staticsAtLoad)
         msg user address nd) = []
   \<and> javaCalls (onGetDeviceServiceChannelResult (classInitNative GetMethodID staticsAtLoad)
         msg user address nd) = []
   \<and> (\<exists>before i. onGetDeviceServiceChannelResult (classInitNative GetMethodID staticsAtLoad)
          msg user address nd = before @ [CallVoidMethodID (me nd) None address i])"
proof -
  have null: "method_onGetDeviceServiceChannelResult (classInitNative GetMethodID staticsAtLoad)
                = None"
    by (simp add: classInitNative_def staticsAtLoad_def)
  have kept: "method_onGetDeviceServiceChannelResult (classInitNative GetMethodID ids)
                = method_onGetDeviceServiceChannelResult ids"
    and sibling: "method_onCreatePairedDeviceResult (classInitNative GetMethodID ids)
                = GetMethodID ''onCreatePairedDeviceResult'' ''(Ljava/lang/String;I)V''"
    by (simp_all add: classInitNative_def)
  have calls: "methodCalls (onGetDeviceServiceChannelResult
         (classInitNative GetMethodID staticsAtLoad) msg user address nd) = []"
    and java: "javaCalls (onGetDeviceServiceChannelResult
         (classInitNative GetMethodID staticsAtLoad) msg user address nd) = []"
    by (simp_all add: null onGetDeviceServiceChannelResult_def methodCalls_append
          javaCalls_append Let_def split: option.splits)
  have ends: "\<exists>before i. onGetDeviceServiceChannelResult
          (classInitNative GetMethodID staticsAtLoad) msg user address nd
            = before @ [CallVoidMethodID (me nd) None address i]"
    by (auto simp: null onGetDeviceServiceChannelResult_def Let_def split: option.splits)
  from kept null sibling calls java ends show ?thesis by (intro conjI)
qed

theorem onGetDeviceServiceChannelResult_calls_nothing_witness:
  "onGetDeviceServiceChannelResult
     (classInitNative (\<lambda>name sig. Some (MethodID name sig)) staticsAtLoad)
     (MethodReturn 5 [ArgInt32 17]) 4096 ''00:11:22:33:44:55'' running2
     = [LogV ''onGetDeviceServiceChannelResult'', LogV ''... address = %s'',
        CallVoidMethodID 1 None ''00:11:22:33:44:55'' 17]
   \<and> methodCalls (onGetDeviceServiceChannelResult
         (classInitNative (\<lambda>name sig. Some (MethodID name sig)) staticsAtLoad)
         (MethodReturn 5 [ArgInt32 17]) 4096 ''00:11:22:33:44:55'' running2) = []
   \<and> method_onCreatePairedDeviceResult
         (classInitNative (\<lambda>name sig. Some (MethodID name sig)) staticsAtLoad)
       = Some (MethodID ''onCreatePairedDeviceResult'' ''(Ljava/lang/String;I)V'')"
proof -
  note inst = onGetDeviceServiceChannelResult_calls_nothing
    [of "\<lambda>name sig. Some (MethodID name sig)" staticsAtLoad "MethodReturn 5 [ArgInt32 17]"
        4096 "''00:11:22:33:44:55''" running2]
  have null: "method_onGetDeviceServiceChannelResult
                (classInitNative (\<lambda>name sig. Some (MethodID name sig)) staticsAtLoad) = None"
    using inst by blast
  have full: "onGetDeviceServiceChannelResult
     (classInitNative (\<lambda>name sig. Some (MethodID name sig)) staticsAtLoad)
     (MethodReturn 5 [ArgInt32 17]) 4096 ''00:11:22:33:44:55'' running2
     = [LogV ''onGetDeviceServiceChannelResult'', LogV ''... address = %s'',
        CallVoidMethodID 1 None ''00:11:22:33:44:55'' 17]"
    by (simp add: onGetDeviceServiceChannelResult_def null Let_def running2_def)
  from inst full show ?thesis by simp
qed

text \<open>
  C10. \<open>agent_event_filter\<close> with a null \<open>data\<close> pointer and a method call:
  the result is \<open>DBUS_HANDLER_RESULT_HANDLED\<close>, after one log line; nothing is
  called in Java and nothing is sent.
\<close>

theorem agent_event_filter_without_native_data:
  "agent_event_filter None (MethodCall n i m p a) auth_granted reply_ok
     = (DBUS_HANDLER_RESULT_HANDLED, [LogI ''%s: Received method %s:%s''])
   \<and> javaCalls (snd (agent_event_filter None (MethodCall n i m p a) auth_granted reply_ok)) = []
   \<and> sent (snd (agent_event_filter None (MethodCall n i m p a) auth_granted reply_ok)) = []
   \<and> (dbus_message_get_type msg = DBUS_MESSAGE_TYPE_METHOD_CALL \<longrightarrow>
        fst (agent_event_filter None msg auth_granted reply_ok) = DBUS_HANDLER_RESULT_HANDLED
        \<and> javaCalls (snd (agent_event_filter None msg auth_granted reply_ok)) = []
        \<and> sent (snd (agent_event_filter None msg auth_granted reply_ok)) = [])"
  by (simp add: agent_event_filter_def Let_def)

theorem agent_event_filter_without_native_data_witness:
  "dbus_message_get_type authorizeCall = DBUS_MESSAGE_TYPE_METHOD_CALL
   \<and> agent_event_filter None authorizeCall True True
       = (DBUS_HANDLER_RESULT_HANDLED, [LogI ''%s: Received method %s:%s''])
   \<and> javaCalls (snd (agent_event_filter None authorizeCall True True)) = []
   \<and> sent (snd (agent_event_filter None authorizeCall True True)) = []"
  using agent_event_filter_without_native_data
          [of 7 "Some ''org.bluez.Agent''" "''Authorize''" "''/android/bluetooth/agent''"
              "[ArgObjectPath ''/org/bluez/hci0/dev_00_11_22_33_44_55'', ArgString ''1101'']"
              True True authorizeCall]
  by (simp add: authorizeCall_def)

text \<open>
  C4, as stated, fails on the code in two places, both guarded in the code: with a
  null \<open>data\<close> pointer nothing is sent (and the result is "handled"), and when the
  reply message cannot be created nothing is sent and the result is "not yet handled".
\<close>

theorem authorize_reply_counterexample:
  "dbus_message_is_method_call authorizeCall ''org.bluez.Agent'' ''Authorize''
   \<and> get_args_OBJECT_PATH_STRING (dbus_message_args authorizeCall)
       = Some (''/org/bluez/hci0/dev_00_11_22_33_44_55'', ''1101'')
   \<and> fst (agent_event_filter (Some running2) authorizeCall True False)
       = DBUS_HANDLER_RESULT_NOT_YET_HANDLED
   \<and> sent (snd (agent_event_filter (Some running2) authorizeCall True False)) = []
   \<and> fst (agent_event_filter (Some running2) authorizeCall False False)
       = DBUS_HANDLER_RESULT_NOT_YET_HANDLED
   \<and> sent (snd (agent_event_filter (Some running2) authorizeCall False False)) = []
   \<and> fst (agent_event_filter None authorizeCall True True) = DBUS_HANDLER_RESULT_HANDLED
   \<and> sent (snd (agent_event_filter None authorizeCall True True)) = []"
  by (simp add: agent_event_filter_def authorizeCall_def Let_def)

text \<open>
  C4, amended. For an \<open>Authorize\<close> call whose arguments decode, with \<open>data\<close>
  not null: \<open>onAgentAuthorize\<close> is called once with the object path and the uuid.
  If the reply message can be created, exactly one message is sent, on \<open>nat->conn\<close>:
  the method return of the call when the callback answers true, the error
  \<open>org.bluez.Error.Rejected\<close> with the text "Authorization rejected" when it answers
  false; and the result is "handled". If the reply message cannot be created, nothing
  is sent, the failure is logged and the result is "not yet handled".
\<close>

theorem authorize_reply:
  assumes "dbus_message_is_method_call msg ''org.bluez.Agent'' ''Authorize''"
    and "get_args_OBJECT_PATH_STRING (dbus_message_args msg) = Some (object_path, uuid)"
  shows "javaCalls (snd (agent_event_filter (Some nd) msg auth_granted reply_ok))
           = [onAgentAuthorize object_path uuid]
    \<and> (reply_ok \<longrightarrow>
          fst (agent_event_filter (Some nd) msg auth_granted reply_ok)
            = DBUS_HANDLER_RESULT_HANDLED
          \<and> sent (snd (agent_event_filter (Some nd) msg auth_granted reply_ok))
              = [(conn nd,
                  if auth_granted then dbus_message_new_method_return msg
                  else dbus_message_new_error msg ''org.bluez.Error.Rejected''
                         ''Authorization rejected'')])
    \<and> (\<not> reply_ok \<longrightarrow>
          fst (agent_event_filter (Some nd) msg auth_granted reply_ok)
            = DBUS_HANDLER_RESULT_NOT_YET_HANDLED
          \<and> sent (snd (agent_event_filter (Some nd) msg auth_granted reply_ok)) = []
          \<and> errorsLogged (snd (agent_event_filter (Some nd) msg auth_granted reply_ok))
              = [''%s: Cannot create message reply\<newline>''])"
proof -
  from assms(1) obtain n i p a where msg: "msg = MethodCall n i ''Authorize'' p a"
    and i: "i = None \<or> i = Some ''org.bluez.Agent''"
    by (cases msg) auto
  from assms(2) have a: "get_args_OBJECT_PATH_STRING a = Some (object_path, uuid)"
    by (simp add: msg)
  show ?thesis
    using i a by (auto simp: msg agent_event_filter_def Let_def)
qed

theorem authorize_reply_witness:
  "dbus_message_is_method_call authorizeCall ''org.bluez.Agent'' ''Authorize''
   \<and> get_args_OBJECT_PATH_STRING (dbus_message_args authorizeCall)
       = Some (''/org/bluez/hci0/dev_00_11_22_33_44_55'', ''1101'')
   \<and> agent_event_filter (Some running2) authorizeCall True True
       = (DBUS_HANDLER_RESULT_HANDLED,
          [LogI ''%s: Received method %s:%s'', LogV ''... object_path = %s'',
           LogV ''... uuid = %s'',
           CallJava 1 (onAgentAuthorize ''/org/bluez/hci0/dev_00_11_22_33_44_55'' ''1101''),
           DBusSend 1 (MethodReturn 7 [])])
   \<and> sent (snd (agent_event_filter (Some running2) authorizeCall True True))
       = [(1, MethodReturn 7 [])]
   \<and> sent (snd (agent_event_filter (Some running2) authorizeCall False True))
       = [(1, Error 7 ''org.bluez.Error.Rejected'' ''Authorization rejected'')]
   \<and> fst (agent_event_filter (Some running2) authorizeCall False True)
       = DBUS_HANDLER_RESULT_HANDLED
   \<and> sent (snd (agent_event_filter (Some running2) authorizeCall True False)) = []"
proof -
  have 1: "dbus_message_is_method_call authorizeCall ''org.bluez.Agent'' ''Authorize''"
    and 2: "get_args_OBJECT_PATH_STRING (dbus_message_args authorizeCall)
              = Some (''/org/bluez/hci0/dev_00_11_22_33_44_55'', ''1101'')"
    by (simp_all add: authorizeCall_def)
  have c: "conn running2 = 1" by (simp add: running2_def)
  have r: "dbus_message_new_method_return authorizeCall = MethodReturn 7 []"
    "dbus_message_new_error authorizeCall ''org.bluez.Error.Rejected'' ''Authorization rejected''
       = Error 7 ''org.bluez.Error.Rejected'' ''Authorization rejected''"
    by (simp_all add: authorizeCall_def dbus_message_new_method_return_def
          dbus_message_new_error_def)
  have full: "agent_event_filter (Some running2) authorizeCall True True
       = (DBUS_HANDLER_RESULT_HANDLED,
          [LogI ''%s: Received method %s:%s'', LogV ''... object_path = %s'',
           LogV ''... uuid = %s'',
           CallJava 1 (onAgentAuthorize ''/org/bluez/hci0/dev_00_11_22_33_44_55'' ''1101''),
           DBusSend 1 (MethodReturn 7 [])])"
    by (simp add: agent_event_filter_def authorizeCall_def Let_def running2_def
          dbus_message_new_method_return_def)
  from authorize_reply [OF 1 2, of running2 True True]
       authorize_reply [OF 1 2, of running2 False True]
       authorize_reply [OF 1 2, of running2 True False]
  have "sent (snd (agent_event_filter (Some running2) authorizeCall True True))
       = [(1, MethodReturn 7 [])]"
    "sent (snd (agent_event_filter (Some running2) authorizeCall False True))
       = [(1, Error 7 ''org.bluez.Error.Rejected'' ''Authorization rejected'')]"
    "fst (agent_event_filter (Some running2) authorizeCall False True)
       = DBUS_HANDLER_RESULT_HANDLED"
    "sent (snd (agent_event_filter (Some running2) authorizeCall True False)) = []"
    by (simp_all add: c r)
  with 1 2 full show ?thesis by (intro conjI)
qed

text \<open>
  C9, as stated, fails on the code: the name and the value are compared with
  \<open>strncmp\<close> over the length of the literal, so a value such as \<open>truely\<close> and
  a name such as \<open>PoweredOff\<close> refresh the adapter path as well.
\<close>

theorem powered_refresh_counterexample:
  "dbus_message_is_signal adapterPropertyChanged ''org.bluez.Adapter'' ''PropertyChanged''
   \<and> ''truely'' \<noteq> ''true''
   \<and> adapter running2 = None
   \<and> event_filter running2 adapterPropertyChanged (decoded [''Powered'', ''truely''])
       = Some (DBUS_HANDLER_RESULT_HANDLED, Some ''/org/bluez/hci1'',
               [LogE ''%s: Received signal %s:%s from %s'',
                DBusCallBlocking 1 ''org.bluez'' ''/'' ''org.bluez.Manager'' ''DefaultAdapter'',
                CallJava 1 (onPropertyChanged [''Powered'', ''truely''])])
   \<and> ''PoweredOff'' \<noteq> ''Powered''
   \<and> event_filter running2 adapterPropertyChanged (decoded [''PoweredOff'', ''true''])
       = Some (DBUS_HANDLER_RESULT_HANDLED, Some ''/org/bluez/hci1'',
               [LogE ''%s: Received signal %s:%s from %s'',
                DBusCallBlocking 1 ''org.bluez'' ''/'' ''org.bluez.Manager'' ''DefaultAdapter'',
                CallJava 1 (onPropertyChanged [''PoweredOff'', ''true''])])"
  by (simp add: event_filter_def adapterPropertyChanged_def decoded_def running2_def Let_def
        strncmp_eq_def get_adapter_path_def)

text \<open>
  C9, amended. For an \<open>org.bluez.Adapter.PropertyChanged\<close> signal that decodes to a
  name, a value and perhaps more: if the name begins with \<open>Powered\<close> and the value
  begins with \<open>true\<close> (as \<open>Powered\<close> and \<open>true\<close> themselves do),
  \<open>nat->adapter\<close> becomes the result of \<open>get_adapter_path\<close> (the path that
  the blocking \<open>DefaultAdapter\<close> call returns, or null), and that call, which is
  made whenever its message can be allocated, comes before the call of
  \<open>onPropertyChanged\<close>; for every other name or value \<open>nat->adapter\<close> stays
  and only \<open>onPropertyChanged\<close> is called. The message is handled in both cases.
\<close>

theorem powered_refresh:
  assumes "dbus_message_is_signal msg ''org.bluez.Adapter'' ''PropertyChanged''"
    and "parse_properties e = Some (c_property # c_value # others)"
  shows "event_filter nd msg e =
      Some (DBUS_HANDLER_RESULT_HANDLED,
            (if strncmp_eq c_property ''Powered'' \<and> strncmp_eq c_value ''true''
             then fst (get_adapter_path (conn nd) (adapter_call_ok e) (adapter_reply e))
             else adapter nd),
            LogE ''%s: Received signal %s:%s from %s''
            # (if strncmp_eq c_property ''Powered'' \<and> strncmp_eq c_value ''true''
               then snd (get_adapter_path (conn nd) (adapter_call_ok e) (adapter_reply e))
               else [])
            @ [CallJava (me nd) (onPropertyChanged (c_property # c_value # others))])
    \<and> strncmp_eq ''Powered'' ''Powered'' \<and> strncmp_eq ''true'' ''true''
    \<and> (strncmp_eq c_property ''Powered'' \<longleftrightarrow> (\<exists>tail. c_property = ''Powered'' @ tail))
    \<and> (strncmp_eq c_value ''true'' \<longleftrightarrow> (\<exists>tail. c_value = ''true'' @ tail))
    \<and> (adapter_call_ok e \<longrightarrow>
          (\<exists>after. snd (get_adapter_path (conn nd) (adapter_call_ok e) (adapter_reply e))
             = DBusCallBlocking (conn nd) ''org.bluez'' ''/'' ''org.bluez.Manager''
                 ''DefaultAdapter'' # after
             \<and> javaCalls after = []))"
proof -
  from assms(1) obtain p a where msg: "msg = Signal ''org.bluez.Adapter'' ''PropertyChanged'' p a"
    by (cases msg) auto
  have pre: "strncmp_eq s lit \<longleftrightarrow> (\<exists>tail. s = lit @ tail)" for s lit :: string
    unfolding strncmp_eq_def by (metis append_eq_conv_conj append_take_drop_id)
  have 1: "event_filter nd msg e =
      Some (DBUS_HANDLER_RESULT_HANDLED,
            (if strncmp_eq c_property ''Powered'' \<and> strncmp_eq c_value ''true''
             then fst (get_adapter_path (conn nd) (adapter_call_ok e) (adapter_reply e))
             else adapter nd),
            LogE ''%s: Received signal %s:%s from %s''
            # (if strncmp_eq c_property ''Powered'' \<and> strncmp_eq c_value ''true''
               then snd (get_adapter_path (conn nd) (adapter_call_ok e) (adapter_reply e))
               else [])
            @ [CallJava (me nd) (onPropertyChanged (c_property # c_value # others))])"
    using assms(2) by (simp add: msg event_filter_def Let_def split: prod.splits)
  have 2: "strncmp_eq ''Powered'' ''Powered''" "strncmp_eq ''true'' ''true''"
    by (simp_all add: strncmp_eq_def)
  have 3: "adapter_call_ok e \<longrightarrow>
          (\<exists>after. snd (get_adapter_path (conn nd) (adapter_call_ok e) (adapter_reply e))
             = DBusCallBlocking (conn nd) ''org.bluez'' ''/'' ''org.bluez.Manager''
                 ''DefaultAdapter'' # after
             \<and> javaCalls after = [])"
    by (simp add: get_adapter_path_def split: option.splits)
  from 1 2 pre [of c_property "''Powered''"] pre [of c_value "''true''"] 3
  show ?thesis by (intro conjI)
qed

theorem powered_refresh_witness:
  "dbus_message_is_signal adapterPropertyChanged ''org.bluez.Adapter'' ''PropertyChanged''
   \<and> parse_properties (decoded [''Powered'', ''true'']) = Some [''Powered'', ''true'']
   \<and> adapter_call_ok (decoded [''Powered'', ''true''])
   \<and> event_filter running2 adapterPropertyChanged (decoded [''Powered'', ''true''])
       = Some (DBUS_HANDLER_RESULT_HANDLED, Some ''/org/bluez/hci1'',
               [LogE ''%s: Received signal %s:%s from %s'',
                DBusCallBlocking 1 ''org.bluez'' ''/'' ''org.bluez.Manager'' ''DefaultAdapter'',
                CallJava 1 (onPropertyChanged [''Powered'', ''true''])])
   \<and> event_filter running2 adapterPropertyChanged (decoded [''Powered'', ''false''])
       = Some (DBUS_HANDLER_RESULT_HANDLED, None,
               [LogE ''%s: Received signal %s:%s from %s'',
                CallJava 1 (onPropertyChanged [''Powered'', ''false''])])
   \<and> event_filter running2 adapterPropertyChanged (decoded [''Name'', ''true''])
       = Some (DBUS_HANDLER_RESULT_HANDLED, None,
               [LogE ''%s: Received signal %s:%s from %s'',
                CallJava 1 (onPropertyChanged [''Name'', ''true''])])"
proof -
  have s: "dbus_message_is_signal adapterPropertyChanged ''org.bluez.Adapter'' ''PropertyChanged''"
    by (simp add: adapterPropertyChanged_def)
  have p: "parse_properties (decoded xs) = Some xs" "adapter_call_ok (decoded xs)"
    "adapter_reply (decoded xs) = Some (MethodReturn 9 [ArgObjectPath ''/org/bluez/hci1''])"
    for xs by (simp_all add: decoded_def)
  have r: "conn running2 = 1" "me running2 = 1" "adapter running2 = None"
    by (simp_all add: running2_def)
  have g: "get_adapter_path 1 True (Some (MethodReturn 9 [ArgObjectPath ''/org/bluez/hci1'']))
      = (Some ''/org/bluez/hci1'',
         [DBusCallBlocking 1 ''org.bluez'' ''/'' ''org.bluez.Manager'' ''DefaultAdapter''])"
    by (simp add: get_adapter_path_def)
  from powered_refresh [OF s p(1) [of "[''Powered'', ''true'']"], of running2]
  have 1: "event_filter running2 adapterPropertyChanged (decoded [''Powered'', ''true''])
       = Some (DBUS_HANDLER_RESULT_HANDLED, Some ''/org/bluez/hci1'',
               [LogE ''%s: Received signal %s:%s from %s'',
                DBusCallBlocking 1 ''org.bluez'' ''/'' ''org.bluez.Manager'' ''DefaultAdapter'',
                CallJava 1 (onPropertyChanged [''Powered'', ''true''])])"
    by (simp add: p r g strncmp_eq_def)
  from powered_refresh [OF s p(1) [of "[''Powered'', ''false'']"], of running2]
  have 2: "event_filter running2 adapterPropertyChanged (decoded [''Powered'', ''false''])
       = Some (DBUS_HANDLER_RESULT_HANDLED, None,
               [LogE ''%s: Received signal %s:%s from %s'',
                CallJava 1 (onPropertyChanged [''Powered'', ''false''])])"
    by (simp add: p r g strncmp_eq_def)
  from powered_refresh [OF s p(1) [of "[''Name'', ''true'']"], of running2]
  have 3: "event_filter running2 adapterPropertyChanged (decoded [''Name'', ''true''])
       = Some (DBUS_HANDLER_RESULT_HANDLED, None,
               [LogE ''%s: Received signal %s:%s from %s'',
                CallJava 1 (onPropertyChanged [''Name'', ''true''])])"
    by (simp add: p r g strncmp_eq_def)
  from s p(1) [of "[''Powered'', ''true'']"] p(2) [of "[''Powered'', ''true'']"] 1 2 3
  show ?thesis by (intro conjI)
qed

end
